theory Spec2Isabelle
  imports Complex_Main "HOL-Library.Char_ord" "HOL-Library.List_Lexorder"
    "HOL-Library.Product_Lexorder"
begin

section \<open>Python values the code relies on\<close>

text \<open>
  Exceptions are values. Only the class of an exception is kept; its text is the
  symbolic \<open>Str_of e\<close> where the code calls \<^verbatim>\<open>str(e)\<close>.
\<close>

datatype exn =
    ValueError
  | TypeError
  | AttributeError
  | InvalidRequestError
  | DatabaseError
  | OtherError

text \<open>
  Strings are strings of ASCII characters here; the character classes below are the
  ASCII part of Python's \<^verbatim>\<open>str.isspace\<close>, \<^verbatim>\<open>str.isdigit\<close>, \<^verbatim>\<open>str.lower\<close> and \<^verbatim>\<open>str.upper\<close>.
\<close>

definition py_isspace :: "char \<Rightarrow> bool" where
  "py_isspace c =
     (let n = (of_char c :: nat) in (9 \<le> n \<and> n \<le> 13) \<or> (28 \<le> n \<and> n \<le> 32))"

definition is_digit :: "char \<Rightarrow> bool" where
  "is_digit c = (let n = (of_char c :: nat) in 48 \<le> n \<and> n \<le> 57)"

definition digit_val :: "char \<Rightarrow> nat" where
  "digit_val c = (of_char c :: nat) - 48"

definition strip :: "string \<Rightarrow> string" where
  "strip s = rev (dropWhile py_isspace (rev (dropWhile py_isspace s)))"

definition isdigit :: "string \<Rightarrow> bool" where
  "isdigit s = (s \<noteq> [] \<and> list_all is_digit s)"

definition lower_char :: "char \<Rightarrow> char" where
  "lower_char c =
     (let n = (of_char c :: nat) in if 65 \<le> n \<and> n \<le> 90 then char_of (n + 32) else c)"

definition upper_char :: "char \<Rightarrow> char" where
  "upper_char c =
     (let n = (of_char c :: nat) in if 97 \<le> n \<and> n \<le> 122 then char_of (n - 32) else c)"

definition lower :: "string \<Rightarrow> string" where
  "lower s = map lower_char s"

definition upper :: "string \<Rightarrow> string" where
  "upper s = map upper_char s"

text \<open>
  \<^verbatim>\<open>int(s)\<close> on a string of ASCII characters: the whitespace of C (tab to carriage
  return, and the space) is dropped on both sides, one sign is allowed, then decimal
  digits, where single underscores may stand between digits. The separators 28 to 31,
  which \<^verbatim>\<open>str.strip\<close> removes, are no whitespace for \<^verbatim>\<open>int\<close>. A literal of more than
  4300 digits is refused (the interpreter's default limit on the conversion). Anything
  that is refused is a \<^verbatim>\<open>ValueError\<close>, the value \<open>None\<close> here.
\<close>

definition int_isspace :: "char \<Rightarrow> bool" where
  "int_isspace c = (let n = (of_char c :: nat) in (9 \<le> n \<and> n \<le> 13) \<or> n = 32)"

definition int_strip :: "string \<Rightarrow> string" where
  "int_strip s = rev (dropWhile int_isspace (rev (dropWhile int_isspace s)))"

definition max_str_digits :: nat where
  "max_str_digits = 4300"

fun digits_value :: "nat \<Rightarrow> string \<Rightarrow> nat option" where
  "digits_value acc [] = Some acc"
| "digits_value acc (c # cs) =
     (if is_digit c then digits_value (10 * acc + digit_val c) cs
      else if c = CHR ''_'' then
        (case cs of
           [] \<Rightarrow> None
         | d # ds \<Rightarrow> if is_digit d then digits_value (10 * acc + digit_val d) ds else None)
      else None)"

definition unsigned_value :: "string \<Rightarrow> nat option" where
  "unsigned_value s =
     (case s of
        [] \<Rightarrow> None
      | d # _ \<Rightarrow>
          if \<not> is_digit d then None
          else if max_str_digits < length (filter is_digit s) then None
          else digits_value 0 s)"

definition py_int :: "string \<Rightarrow> int option" where
  "py_int s =
     (case int_strip s of
        [] \<Rightarrow> None
      | c # cs \<Rightarrow>
          if c = CHR ''-'' then map_option (\<lambda>n. - int n) (unsigned_value cs)
          else if c = CHR ''+'' then map_option int (unsigned_value cs)
          else map_option int (unsigned_value (c # cs)))"

text \<open>\<^verbatim>\<open>str(n)\<close> for a natural number (the calendar year).\<close>

fun str_nat :: "nat \<Rightarrow> string" where
  "str_nat n =
     (if n < 10 then [char_of (48 + n)]
      else str_nat (n div 10) @ [char_of (48 + n mod 10)])"

text \<open>\<^verbatim>\<open>str.split()\<close> with no argument: the maximal runs of non-whitespace.\<close>

fun split_ws :: "string \<Rightarrow> string \<Rightarrow> string list" where
  "split_ws cur [] = (if cur = [] then [] else [cur])"
| "split_ws cur (c # cs) =
     (if py_isspace c then (if cur = [] then split_ws [] cs else cur # split_ws [] cs)
      else split_ws (cur @ [c]) cs)"

text \<open>Sequencing of steps that may raise: the first exception is the result.\<close>

definition then_do :: "exn + 'a \<Rightarrow> ('a \<Rightarrow> exn + 'b) \<Rightarrow> exn + 'b" where
  "then_do r f = (case r of Inl e \<Rightarrow> Inl e | Inr x \<Rightarrow> f x)"

subsection \<open>Calendar dates\<close>

text \<open>
  \<^verbatim>\<open>datetime.date\<close>: a year in 1..9999, a month and a day that exists in that
  month. \<^verbatim>\<open>date.replace(year=y)\<close> raises \<^verbatim>\<open>ValueError\<close> when the result is no date
  (the year out of range, or the 29th of February moved to a common year).
\<close>

datatype date = Date (year: int) (month: nat) (day: nat)

definition is_leap :: "int \<Rightarrow> bool" where
  "is_leap y = (y mod 4 = 0 \<and> (y mod 100 \<noteq> 0 \<or> y mod 400 = 0))"

definition days_in_month :: "int \<Rightarrow> nat \<Rightarrow> nat" where
  "days_in_month y m =
     (if m = 2 then (if is_leap y then 29 else 28)
      else if m = 4 \<or> m = 6 \<or> m = 9 \<or> m = 11 then 30 else 31)"

definition valid_date :: "date \<Rightarrow> bool" where
  "valid_date d =
     (1 \<le> year d \<and> year d \<le> 9999 \<and> 1 \<le> month d \<and> month d \<le> 12 \<and>
      1 \<le> day d \<and> day d \<le> days_in_month (year d) (month d))"

definition replace_year :: "date \<Rightarrow> int \<Rightarrow> exn + date" where
  "replace_year d y =
     (let d' = Date y (month d) (day d) in if valid_date d' then Inr d' else Inl ValueError)"

definition date_le :: "date \<Rightarrow> date \<Rightarrow> bool" where
  "date_le a b = ((year a, month a, day a) \<le> (year b, month b, day b))"

section \<open>The base model: \<^verbatim>\<open>app/models/base.py\<close>\<close>

text \<open>
  Calls to the application logger are left out of this section: the logger is an
  external collaborator and is taken not to raise.
\<close>

subsection \<open>\<^verbatim>\<open>BaseModel.delete\<close>\<close>

text \<open>
  A stored row is identified by its primary key. \<open>flag = None\<close> says that the entity's
  class declares no \<^verbatim>\<open>is_deleted\<close> attribute (\<^verbatim>\<open>hasattr\<close> is false); otherwise the
  flag's value is held. The table is the list of stored rows. An instance is the Python
  object \<^verbatim>\<open>self\<close>: its key, its attribute, and whether it belongs to the session,
  \<open>in_session\<close>. With the table this gives the four states an instance can be in:
  persistent (in the session, its row stored), pending (in the session, no row yet),
  detached (its row stored, not in the session) and transient (neither). So an instance
  carries the key of a stored row exactly when it was loaded from that row or written
  to it.

  The assignment \<^verbatim>\<open>self.is_deleted = True\<close> changes the object, and nothing in
  \<^verbatim>\<open>delete\<close> adds the object to the session. The commit that follows writes what the
  session holds, \<open>flush_flag\<close>: the row of a persistent instance is updated, a pending
  instance is inserted with the flag set, and for an instance outside the session
  nothing is written. \<^verbatim>\<open>session.delete\<close> refuses an instance that has no stored row
  (\<^verbatim>\<open>InvalidRequestError\<close>, the instance is not persisted) and takes every other one,
  a detached instance being attached again; the commit then removes the row.

  Whether the database accepts a commit is not decided by this code: \<open>commit_error\<close>
  gives the exception the commit of a pending table raises, if any. On an exception the
  session is rolled back, so the table is the old one, and the exception is raised
  again. The result is what the call returns or raises, and the table after it.
\<close>

record entity =
  ent_id :: nat
  flag :: "bool option"

record model_instance = entity +
  in_session :: bool

definition hasattr_is_deleted :: "model_instance \<Rightarrow> bool" where
  "hasattr_is_deleted self = (flag self \<noteq> None)"

definition persisted :: "entity list \<Rightarrow> model_instance \<Rightarrow> bool" where
  "persisted tbl self = (ent_id self \<in> set (map ent_id tbl))"

definition mark_deleted :: "model_instance \<Rightarrow> entity list \<Rightarrow> entity list" where
  "mark_deleted self tbl =
     map (\<lambda>r. if ent_id r = ent_id self then r\<lparr>flag := Some True\<rparr> else r) tbl"

definition flush_flag :: "model_instance \<Rightarrow> entity list \<Rightarrow> entity list" where
  "flush_flag self tbl =
     (if \<not> in_session self then tbl
      else if persisted tbl self then mark_deleted self tbl
      else tbl @ [\<lparr>ent_id = ent_id self, flag = Some True\<rparr>])"

definition remove_row :: "model_instance \<Rightarrow> entity list \<Rightarrow> entity list" where
  "remove_row self tbl = filter (\<lambda>r. ent_id r \<noteq> ent_id self) tbl"

definition commit :: "(entity list \<Rightarrow> exn option) \<Rightarrow> entity list \<Rightarrow> entity list
    \<Rightarrow> (exn + bool) \<times> entity list" where
  "commit commit_error old pending =
     (case commit_error pending of
        None \<Rightarrow> (Inr True, pending)
      | Some e \<Rightarrow> (Inl e, old))"

definition delete :: "(entity list \<Rightarrow> exn option) \<Rightarrow> model_instance \<Rightarrow> bool \<Rightarrow> entity list
    \<Rightarrow> (exn + bool) \<times> entity list" where
  "delete commit_error self soft tbl =
     (if soft \<and> hasattr_is_deleted self then
        commit commit_error tbl (flush_flag self tbl)
      else if \<not> persisted tbl self then (Inl InvalidRequestError, tbl)
      else commit commit_error tbl (remove_row self tbl))"

subsection \<open>\<^verbatim>\<open>BaseModel.to_dict\<close>\<close>

text \<open>
  A model instance is what \<^verbatim>\<open>to_dict\<close> reads of it: for every column, in table order,
  its name and what \<^verbatim>\<open>getattr\<close> gives (a value, or an exception, say of an expired
  attribute of a detached instance), and the same for every relationship of the mapper.
  \<^verbatim>\<open>uselist\<close> is the constructor of the related value: \<open>Collection\<close> for a list,
  \<open>Single\<close> for one object or \<^verbatim>\<open>None\<close>. A related item either has \<^verbatim>\<open>to_dict\<close> (it is a
  model) or has not, and then \<^verbatim>\<open>str(item)\<close> gives a string or raises.
  Column values are \<^verbatim>\<open>datetime\<close> objects, of the type \<open>'dt\<close> with the library's
  \<^verbatim>\<open>isoformat\<close> as the parameter \<open>isofmt\<close>, or anything else, of the type \<open>'v\<close>.
\<close>

datatype ('v, 'dt) attr = Plain 'v | DateTime 'dt

datatype 'v jval =
    JNone
  | JPlain 'v
  | JStr string
  | JDict "(string \<times> 'v jval) list"
  | JList "'v jval list"

datatype ('v, 'dt) model =
    Model (columns: "(string \<times> (exn + ('v, 'dt) attr)) list")
          (relationships: "(string \<times> (exn + ('v, 'dt) related)) list")
and ('v, 'dt) related =
    Single "('v, 'dt) item option"
  | Collection "('v, 'dt) item list"
and ('v, 'dt) item =
    HasToDict "('v, 'dt) model"
  | NoToDict "exn + string"

text \<open>\<^verbatim>\<open>data[k] = v\<close> on a dictionary that keeps insertion order.\<close>

fun dict_set :: "'k \<Rightarrow> 'a \<Rightarrow> ('k \<times> 'a) list \<Rightarrow> ('k \<times> 'a) list" where
  "dict_set k v [] = [(k, v)]"
| "dict_set k v ((k', v') # kvs) =
     (if k = k' then (k, v) # kvs else (k', v') # dict_set k v kvs)"

text \<open>The loop over the columns (lines 46 to 51); it stops at the first exception.\<close>

fun column_loop :: "('dt \<Rightarrow> string) \<Rightarrow> (string \<times> (exn + ('v, 'dt) attr)) list
    \<Rightarrow> (string \<times> 'v jval) list \<Rightarrow> exn + (string \<times> 'v jval) list" where
  "column_loop isofmt [] data = Inr data"
| "column_loop isofmt ((name, got) # cols) data =
     (case got of
        Inl e \<Rightarrow> Inl e
      | Inr (DateTime t) \<Rightarrow> column_loop isofmt cols (dict_set name (JStr (isofmt t)) data)
      | Inr (Plain v) \<Rightarrow> column_loop isofmt cols (dict_set name (JPlain v) data))"

text \<open>
  \<^verbatim>\<open>item.to_dict()\<close> of a related item: \<^verbatim>\<open>include_relationships\<close> has its default
  \<^verbatim>\<open>False\<close>, so only the columns are read, and the outer handler turns an exception
  into the empty dictionary.
\<close>

definition to_dict_columns :: "('dt \<Rightarrow> string) \<Rightarrow> ('v, 'dt) model
    \<Rightarrow> exn + (string \<times> 'v jval) list" where
  "to_dict_columns isofmt m =
     (case column_loop isofmt (columns m) [] of Inl e \<Rightarrow> Inr [] | Inr data \<Rightarrow> Inr data)"

definition expand_item :: "('dt \<Rightarrow> string) \<Rightarrow> ('v, 'dt) item \<Rightarrow> exn + 'v jval" where
  "expand_item isofmt it =
     (case it of
        HasToDict m \<Rightarrow>
          (case to_dict_columns isofmt m of Inl e \<Rightarrow> Inl e | Inr d \<Rightarrow> Inr (JDict d))
      | NoToDict s \<Rightarrow> (case s of Inl e \<Rightarrow> Inl e | Inr t \<Rightarrow> Inr (JStr t)))"

fun expand_items :: "('dt \<Rightarrow> string) \<Rightarrow> ('v, 'dt) item list \<Rightarrow> exn + 'v jval list" where
  "expand_items isofmt [] = Inr []"
| "expand_items isofmt (it # its) =
     (case expand_item isofmt it of
        Inl e \<Rightarrow> Inl e
      | Inr v \<Rightarrow>
          (case expand_items isofmt its of Inl e \<Rightarrow> Inl e | Inr vs \<Rightarrow> Inr (v # vs)))"

text \<open>
  What the inner \<^verbatim>\<open>try\<close> block computes for one relationship (lines 57 to 69): the
  value to store, \<open>None\<close> when the related value is falsy and nothing is stored, or
  the exception.
\<close>

definition expand_relationship :: "('dt \<Rightarrow> string) \<Rightarrow> exn + ('v, 'dt) related
    \<Rightarrow> exn + 'v jval option" where
  "expand_relationship isofmt got =
     (case got of
        Inl e \<Rightarrow> Inl e
      | Inr (Single None) \<Rightarrow> Inr None
      | Inr (Single (Some it)) \<Rightarrow>
          (case expand_item isofmt it of Inl e \<Rightarrow> Inl e | Inr v \<Rightarrow> Inr (Some v))
      | Inr (Collection its) \<Rightarrow>
          (if its = [] then Inr None
           else (case expand_items isofmt its of
                   Inl e \<Rightarrow> Inl e
                 | Inr vs \<Rightarrow> Inr (Some (JList vs)))))"

text \<open>One round of the loop over the relationships, with its handler (lines 56 to 72).\<close>

definition relationship_step :: "('dt \<Rightarrow> string) \<Rightarrow> (string \<times> 'v jval) list
    \<Rightarrow> string \<times> (exn + ('v, 'dt) related) \<Rightarrow> (string \<times> 'v jval) list" where
  "relationship_step isofmt data r =
     (case expand_relationship isofmt (snd r) of
        Inl e \<Rightarrow> dict_set (fst r) JNone data
      | Inr None \<Rightarrow> data
      | Inr (Some v) \<Rightarrow> dict_set (fst r) v data)"

definition to_dict :: "('dt \<Rightarrow> string) \<Rightarrow> ('v, 'dt) model \<Rightarrow> bool
    \<Rightarrow> exn + (string \<times> 'v jval) list" where
  "to_dict isofmt m include_relationships =
     (case column_loop isofmt (columns m) [] of
        Inl e \<Rightarrow> Inr []
      | Inr data \<Rightarrow>
          if include_relationships
          then Inr (foldl (relationship_step isofmt) data (relationships m))
          else Inr data)"

section \<open>The rows and the queries: \<^verbatim>\<open>app/api/athletes.py\<close>\<close>

subsection \<open>Rows\<close>

text \<open>
  The model classes are not part of the code at hand; a row holds the attributes the
  two handlers read. An athlete row carries the rows its foreign keys lead to: the
  \<open>user\<close> the inner join needs, and the sport and position of the outer joins
  (\<open>None\<close> when there is none). Nullable columns are options. Numeric columns
  (weight, rating, stat values) are rationals. A database is the list of athlete rows.
\<close>

record user =
  first_name :: string
  last_name :: string

record sport =
  sport_id :: int
  sport_code :: string

record position =
  position_id :: int
  position_code :: string
  position_name :: string

record athlete_stat =
  stat_name :: string
  season :: string
  stat_value :: rat

record athlete =
  athlete_id :: nat
  is_deleted :: bool
  is_featured :: bool
  user :: "user option"
  primary_sport :: "sport option"
  primary_position :: "position option"
  current_team :: "string option"
  date_of_birth :: "date option"
  height_cm :: "int option"
  weight_kg :: "rat option"
  contract_active :: "bool option"
  overall_rating :: "rat option"
  profile_image_url :: "string option"
  stats :: "athlete_stat list"

subsection \<open>The query object of the ORM\<close>

text \<open>
  The ORM is a library; what follows is the part of its documented behaviour that the
  code calls. A condition is a column expression. In a \<^verbatim>\<open>WHERE\<close> clause a comparison
  with \<^verbatim>\<open>NULL\<close> selects no row, so a missing value makes a comparison false.
  The pattern match of \<^verbatim>\<open>ILIKE\<close> is the database's: the parameter \<open>ilike\<close>, applied to
  the column's value and the pattern.
\<close>

datatype strcol =
    First_name | Last_name | Full_name | Position_name | Position_code | Current_team
  | Sport_code

datatype cond =
    ILike strcol string
  | AnyOf "cond list"
  | AllOf "cond list"
  | Is_deleted_eq bool
  | Is_featured_eq bool
  | Sport_id_eq int
  | Position_id_eq int
  | Sport_code_eq string
  | Dob_le date
  | Dob_ge date
  | Height_ge int
  | Height_le int
  | Weight_ge rat
  | Weight_le rat
  | Contract_active_is bool

definition col_value :: "strcol \<Rightarrow> athlete \<Rightarrow> string option" where
  "col_value c a =
     (case c of
        First_name \<Rightarrow> map_option first_name (user a)
      | Last_name \<Rightarrow> map_option last_name (user a)
      | Full_name \<Rightarrow> map_option (\<lambda>u. first_name u @ '' '' @ last_name u) (user a)
      | Position_name \<Rightarrow> map_option position_name (primary_position a)
      | Position_code \<Rightarrow> map_option position_code (primary_position a)
      | Current_team \<Rightarrow> current_team a
      | Sport_code \<Rightarrow> map_option sport_code (primary_sport a))"

fun holds :: "(string \<Rightarrow> string \<Rightarrow> bool) \<Rightarrow> athlete \<Rightarrow> cond \<Rightarrow> bool" where
  "holds ilike a (ILike c pat) =
     (case col_value c a of None \<Rightarrow> False | Some s \<Rightarrow> ilike s pat)"
| "holds ilike a (AnyOf cs) = list_ex (holds ilike a) cs"
| "holds ilike a (AllOf cs) = list_all (holds ilike a) cs"
| "holds ilike a (Is_deleted_eq b) = (is_deleted a = b)"
| "holds ilike a (Is_featured_eq b) = (is_featured a = b)"
| "holds ilike a (Sport_id_eq n) = (map_option sport_id (primary_sport a) = Some n)"
| "holds ilike a (Position_id_eq n) =
     (map_option position_id (primary_position a) = Some n)"
| "holds ilike a (Sport_code_eq s) = (map_option sport_code (primary_sport a) = Some s)"
| "holds ilike a (Dob_le d) =
     (case date_of_birth a of None \<Rightarrow> False | Some b \<Rightarrow> date_le b d)"
| "holds ilike a (Dob_ge d) =
     (case date_of_birth a of None \<Rightarrow> False | Some b \<Rightarrow> date_le d b)"
| "holds ilike a (Height_ge n) =
     (case height_cm a of None \<Rightarrow> False | Some h \<Rightarrow> n \<le> h)"
| "holds ilike a (Height_le n) =
     (case height_cm a of None \<Rightarrow> False | Some h \<Rightarrow> h \<le> n)"
| "holds ilike a (Weight_ge w) =
     (case weight_kg a of None \<Rightarrow> False | Some x \<Rightarrow> w \<le> x)"
| "holds ilike a (Weight_le w) =
     (case weight_kg a of None \<Rightarrow> False | Some x \<Rightarrow> x \<le> w)"
| "holds ilike a (Contract_active_is b) = (contract_active a = Some b)"

text \<open>
  The keys of an \<^verbatim>\<open>ORDER BY\<close>. Every key maps a row to a value of one ordered type, so
  that a row's list of key values is compared lexicographically. Strings are compared
  by their bytes (the database's collation is not modelled). A descending rating is the
  negated rating; \<^verbatim>\<open>nullslast\<close> puts the missing ratings after all others, and without
  it the default of PostgreSQL, the configured database, puts them first. Rows with
  equal keys, whose order the database leaves open, stay in the order of the table.
\<close>

datatype order_key = Rating_desc_nullslast | Rating_desc | Last_name_asc | First_name_asc

type_synonym sortval = "(nat \<times> rat) \<times> string"

definition sort_val :: "athlete \<Rightarrow> order_key \<Rightarrow> sortval" where
  "sort_val a k =
     (case k of
        Rating_desc_nullslast \<Rightarrow>
          (case overall_rating a of None \<Rightarrow> ((1, 0), []) | Some r \<Rightarrow> ((0, - r), []))
      | Rating_desc \<Rightarrow>
          (case overall_rating a of None \<Rightarrow> ((0, 0), []) | Some r \<Rightarrow> ((1, - r), []))
      | Last_name_asc \<Rightarrow> ((0, 0), (case user a of None \<Rightarrow> [] | Some u \<Rightarrow> last_name u))
      | First_name_asc \<Rightarrow> ((0, 0), (case user a of None \<Rightarrow> [] | Some u \<Rightarrow> first_name u)))"

record query =
  where_conds :: "cond list"
  join_user :: bool
  limit_clause :: "int option"
  offset_clause :: "int option"
  order_clause :: "order_key list"

text \<open>
  \<^verbatim>\<open>Query.filter\<close> and \<^verbatim>\<open>Query.order_by\<close> refuse a query that already has a
  \<^verbatim>\<open>LIMIT\<close> or an \<^verbatim>\<open>OFFSET\<close>: they raise \<^verbatim>\<open>InvalidRequestError\<close>.
  \<^verbatim>\<open>Query.limit\<close> and \<^verbatim>\<open>Query.offset\<close> replace the clause and never raise.
  \<^verbatim>\<open>order_by(None)\<close> removes the order, under the same check.
\<close>

definition no_limit_offset :: "query \<Rightarrow> bool" where
  "no_limit_offset q = (limit_clause q = None \<and> offset_clause q = None)"

definition query_filter :: "cond \<Rightarrow> query \<Rightarrow> exn + query" where
  "query_filter c q =
     (if no_limit_offset q then Inr (q\<lparr>where_conds := where_conds q @ [c]\<rparr>)
      else Inl InvalidRequestError)"

definition query_order_by :: "order_key list \<Rightarrow> query \<Rightarrow> exn + query" where
  "query_order_by ks q =
     (if no_limit_offset q then Inr (q\<lparr>order_clause := order_clause q @ ks\<rparr>)
      else Inl InvalidRequestError)"

definition query_order_by_none :: "query \<Rightarrow> exn + query" where
  "query_order_by_none q =
     (if no_limit_offset q then Inr (q\<lparr>order_clause := []\<rparr>)
      else Inl InvalidRequestError)"

definition query_limit :: "int \<Rightarrow> query \<Rightarrow> query" where
  "query_limit n q = q\<lparr>limit_clause := Some n\<rparr>"

definition query_offset :: "int \<Rightarrow> query \<Rightarrow> query" where
  "query_offset n q = q\<lparr>offset_clause := Some n\<rparr>"

text \<open>The rows a query selects, before \<^verbatim>\<open>LIMIT\<close> and \<^verbatim>\<open>OFFSET\<close>, in its order.\<close>

definition selects :: "(string \<Rightarrow> string \<Rightarrow> bool) \<Rightarrow> query \<Rightarrow> athlete \<Rightarrow> bool" where
  "selects ilike q a =
     ((if join_user q then user a \<noteq> None else True) \<and>
      list_all (holds ilike a) (where_conds q))"

definition matching :: "(string \<Rightarrow> string \<Rightarrow> bool) \<Rightarrow> athlete list \<Rightarrow> query
    \<Rightarrow> athlete list" where
  "matching ilike db q =
     sort_key (\<lambda>a. map (sort_val a) (order_clause q)) (filter (selects ilike q) db)"

text \<open>
  \<^verbatim>\<open>Query.all\<close>. PostgreSQL rejects a negative \<^verbatim>\<open>LIMIT\<close> or \<^verbatim>\<open>OFFSET\<close>.
  \<^verbatim>\<open>Query.count\<close> counts the selected rows.
\<close>

definition query_all :: "(string \<Rightarrow> string \<Rightarrow> bool) \<Rightarrow> athlete list \<Rightarrow> query
    \<Rightarrow> exn + athlete list" where
  "query_all ilike db q =
     (let off = (case offset_clause q of None \<Rightarrow> 0 | Some n \<Rightarrow> n) in
      if off < 0 then Inl DatabaseError
      else (case limit_clause q of
              None \<Rightarrow> Inr (drop (nat off) (matching ilike db q))
            | Some l \<Rightarrow>
                if l < 0 then Inl DatabaseError
                else Inr (take (nat l) (drop (nat off) (matching ilike db q)))))"

definition query_count :: "(string \<Rightarrow> string \<Rightarrow> bool) \<Rightarrow> athlete list \<Rightarrow> query \<Rightarrow> nat" where
  "query_count ilike db q = length (filter (selects ilike q) db)"

text \<open>
  \<^verbatim>\<open>Query.paginate(page, per_page, error_out=False, max_per_page)\<close> of the Flask
  extension (its version 3): the size is capped, then a page below 1 becomes 1 and a
  size below 1 becomes 20; the items are fetched with the page's own \<^verbatim>\<open>LIMIT\<close> and
  \<^verbatim>\<open>OFFSET\<close> (which replace those of the query), and the total is
  \<^verbatim>\<open>query.order_by(None).count()\<close>.
\<close>

record pagination =
  pg_items :: "athlete list"
  pg_total :: nat
  pg_page :: int
  pg_per_page :: int

definition paginate :: "(string \<Rightarrow> string \<Rightarrow> bool) \<Rightarrow> athlete list \<Rightarrow> query \<Rightarrow> int \<Rightarrow> int
    \<Rightarrow> int \<Rightarrow> exn + pagination" where
  "paginate ilike db q page per_page max_per_page =
     (let size1 = min per_page max_per_page;
          page1 = (if page < 1 then 1 else page);
          size2 = (if size1 < 1 then 20 else size1)
      in then_do (query_all ilike db
                    (query_offset ((page1 - 1) * size2) (query_limit size2 q))) (\<lambda>rows.
         then_do (query_order_by_none q) (\<lambda>q'.
           Inr \<lparr>pg_items = rows, pg_total = query_count ilike db q',
                pg_page = page1, pg_per_page = size2\<rparr>)))"

definition pg_pages :: "pagination \<Rightarrow> int" where
  "pg_pages p =
     (if pg_total p = 0 then 0
      else (int (pg_total p) + pg_per_page p - 1) div pg_per_page p)"

definition has_prev :: "pagination \<Rightarrow> bool" where
  "has_prev p = (pg_page p > 1)"

definition has_next :: "pagination \<Rightarrow> bool" where
  "has_next p = (pg_page p < pg_pages p)"

subsection \<open>Request parameters\<close>

text \<open>
  Two kinds of mapping reach the code. \<^verbatim>\<open>request.args\<close> is the framework's
  \<open>MultiDict\<close>, whose \<^verbatim>\<open>get(key, default, type=int)\<close> converts the value and gives the
  default when the key is missing or the conversion raises \<^verbatim>\<open>ValueError\<close>.
  \<^verbatim>\<open>request.args.to_dict()\<close> is a plain \<open>Dict\<close>: its \<^verbatim>\<open>get\<close> takes no keyword
  argument, and a call with \<^verbatim>\<open>type=int\<close> raises \<^verbatim>\<open>TypeError\<close>. Both are read
  through the first value of a key.
\<close>

datatype params = Dict "(string \<times> string) list" | MultiDict "(string \<times> string) list"

definition pairs :: "params \<Rightarrow> (string \<times> string) list" where
  "pairs p = (case p of Dict kv \<Rightarrow> kv | MultiDict kv \<Rightarrow> kv)"

definition params_get :: "params \<Rightarrow> string \<Rightarrow> string option" where
  "params_get p k = map_of (pairs p) k"

definition params_get_or :: "params \<Rightarrow> string \<Rightarrow> string \<Rightarrow> string" where
  "params_get_or p k d = (case map_of (pairs p) k of None \<Rightarrow> d | Some v \<Rightarrow> v)"

definition params_get_int :: "params \<Rightarrow> string \<Rightarrow> exn + int option" where
  "params_get_int p k =
     (case p of
        Dict kv \<Rightarrow> Inl TypeError
      | MultiDict kv \<Rightarrow> Inr (case map_of kv k of None \<Rightarrow> None | Some s \<Rightarrow> py_int s))"

subsection \<open>\<^verbatim>\<open>AthleteSearchOptimized.build_search_query\<close>\<close>

text \<open>
  The function's steps in source order, each giving the conditions it appends to
  \<^verbatim>\<open>filters\<close> or the exception it raises. \<open>today\<close> is \<^verbatim>\<open>date.today()\<close>. \<open>pf\<close> is
  \<^verbatim>\<open>float\<close> on a string, \<open>None\<close> for \<^verbatim>\<open>ValueError\<close>. The handler of the function logs
  the exception and raises it again, so the exception is the function's result.
\<close>

definition base_query :: query where
  "base_query =
     \<lparr>where_conds = [Is_deleted_eq False], join_user = True, limit_clause = None,
      offset_clause = None, order_clause = []\<rparr>"

definition text_filter :: "params \<Rightarrow> cond list" where
  "text_filter params =
     (let q = strip (params_get_or params ''q'' []) in
      if q \<noteq> [] then
        (let pattern = ''%'' @ q @ ''%'' in
         [AnyOf [ILike First_name pattern, ILike Last_name pattern, ILike Full_name pattern,
                 ILike Position_name pattern, ILike Current_team pattern]])
      else [])"

definition sport_filter :: "params \<Rightarrow> exn + cond list" where
  "sport_filter params =
     (case params_get params ''sport'' of
        None \<Rightarrow> Inr []
      | Some sport \<Rightarrow>
          if sport = [] then Inr []
          else if isdigit sport then
            (case py_int sport of None \<Rightarrow> Inl ValueError | Some n \<Rightarrow> Inr [Sport_id_eq n])
          else Inr [ILike Sport_code sport])"

definition position_filter :: "params \<Rightarrow> exn + cond list" where
  "position_filter params =
     (case params_get params ''position'' of
        None \<Rightarrow> Inr []
      | Some position \<Rightarrow>
          if position = [] then Inr []
          else if isdigit position then
            (case py_int position of
               None \<Rightarrow> Inl ValueError
             | Some n \<Rightarrow> Inr [Position_id_eq n])
          else Inr [AnyOf [ILike Position_code position,
                           ILike Position_name (''%'' @ position @ ''%'')]])"

definition team_filter :: "params \<Rightarrow> cond list" where
  "team_filter params =
     (case params_get params ''team'' of
        None \<Rightarrow> []
      | Some team \<Rightarrow> if team = [] then [] else [ILike Current_team (''%'' @ team @ ''%'')])"

definition age_filter :: "date \<Rightarrow> params \<Rightarrow> string \<Rightarrow> (date \<Rightarrow> cond) \<Rightarrow> exn + cond list" where
  "age_filter today params key mk =
     then_do (params_get_int params key) (\<lambda>age.
       case age of
         None \<Rightarrow> Inr []
       | Some n \<Rightarrow> then_do (replace_year today (year today - n)) (\<lambda>cutoff. Inr [mk cutoff]))"

definition int_filter :: "params \<Rightarrow> string \<Rightarrow> (int \<Rightarrow> cond) \<Rightarrow> exn + cond list" where
  "int_filter params key mk =
     (case params_get params key of
        None \<Rightarrow> Inr []
      | Some s \<Rightarrow>
          if s = [] then Inr []
          else (case py_int s of None \<Rightarrow> Inl ValueError | Some n \<Rightarrow> Inr [mk n]))"

definition float_filter :: "(string \<Rightarrow> rat option) \<Rightarrow> params \<Rightarrow> string \<Rightarrow> (rat \<Rightarrow> cond)
    \<Rightarrow> exn + cond list" where
  "float_filter pf params key mk =
     (case params_get params key of
        None \<Rightarrow> Inr []
      | Some s \<Rightarrow>
          if s = [] then Inr []
          else (case pf s of None \<Rightarrow> Inl ValueError | Some x \<Rightarrow> Inr [mk x]))"

text \<open>The filter tab (lines 96 to 104): the conditions so far and the query, updated.\<close>

definition tab_handling :: "params \<Rightarrow> cond list \<Rightarrow> query \<Rightarrow> cond list \<times> query" where
  "tab_handling params filters q =
     (let filter_tab = lower (params_get_or params ''filter'' []) in
      if filter_tab \<in> set [''nba'', ''nfl'', ''mlb'', ''nhl'']
      then (filters @ [Sport_code_eq (upper filter_tab)], q)
      else if filter_tab = ''available'' then (filters @ [Contract_active_is False], q)
      else if filter_tab = ''top'' then (filters, query_limit 10 q)
      else (filters, q))"

definition search_order :: "order_key list" where
  "search_order = [Rating_desc_nullslast, Last_name_asc, First_name_asc]"

text \<open>
  Lines 96 to 117: the filter tab, then all conditions as one conjunction, then the order.
\<close>

definition finish_query :: "params \<Rightarrow> cond list \<Rightarrow> exn + query" where
  "finish_query params fs =
     (case tab_handling params fs base_query of
        (filters, q) \<Rightarrow>
          then_do (if filters \<noteq> [] then query_filter (AllOf filters) q else Inr q)
            (query_order_by search_order))"

definition build_search_query :: "date \<Rightarrow> (string \<Rightarrow> rat option) \<Rightarrow> params \<Rightarrow> exn + query" where
  "build_search_query today pf params =
     then_do (sport_filter params) (\<lambda>f_sport.
     then_do (position_filter params) (\<lambda>f_position.
     then_do (age_filter today params ''min_age'' Dob_le) (\<lambda>f_min_age.
     then_do (age_filter today params ''max_age'' Dob_ge) (\<lambda>f_max_age.
     then_do (int_filter params ''min_height'' Height_ge) (\<lambda>f_min_height.
     then_do (int_filter params ''max_height'' Height_le) (\<lambda>f_max_height.
     then_do (float_filter pf params ''min_weight'' Weight_ge) (\<lambda>f_min_weight.
     then_do (float_filter pf params ''max_weight'' Weight_le) (\<lambda>f_max_weight.
       finish_query params
         (text_filter params @ f_sport @ f_position @ team_filter params @
          f_min_age @ f_max_age @ f_min_height @ f_max_height @
          f_min_weight @ f_max_weight)))))))))"

subsection \<open>\<^verbatim>\<open>AthleteSearch.get\<close>\<close>

text \<open>
  The response is the JSON payload with status 200, or the error envelope with status
  500, whose message is \<^verbatim>\<open>str(e)\<close> in debug mode. The log is the list of the entries
  the handler writes. \<open>ser\<close> is \<^verbatim>\<open>AthleteProfile.to_dict\<close>, a method of a class that is
  not part of the code at hand. The response cache of the decorator is not modelled.
\<close>

datatype log_entry =
    Serialize_error nat exn
  | Process_error nat exn
  | Search_error exn
  | Featured_error exn
  | Search_executed nat

datatype msg = Str_of exn | Internal_error

datatype 'a response = Ok200 'a | Error500 string msg

record 'd search_payload =
  results :: "'d list"
  r_count :: nat
  r_total :: nat
  r_page :: int
  r_pages :: int
  r_has_next :: bool
  r_has_prev :: bool

text \<open>Lines 149 and 150: \<^verbatim>\<open>int\<close> of the parameter, or of the default.\<close>

definition page_arg :: "params \<Rightarrow> exn + int" where
  "page_arg params =
     (case params_get params ''page'' of
        None \<Rightarrow> Inr 1
      | Some s \<Rightarrow> (case py_int s of None \<Rightarrow> Inl ValueError | Some n \<Rightarrow> Inr n))"

definition per_page_arg :: "params \<Rightarrow> exn + int" where
  "per_page_arg params =
     (case params_get params ''per_page'' of
        None \<Rightarrow> Inr (min 50 100)
      | Some s \<Rightarrow> (case py_int s of None \<Rightarrow> Inl ValueError | Some n \<Rightarrow> Inr (min n 100)))"

text \<open>The loop of lines 164 to 170.\<close>

fun format_results :: "(athlete \<Rightarrow> exn + 'd) \<Rightarrow> athlete list \<Rightarrow> 'd list \<Rightarrow> log_entry list
    \<Rightarrow> 'd list \<times> log_entry list" where
  "format_results ser [] res lg = (res, lg)"
| "format_results ser (a # items) res lg =
     (case ser a of
        Inl e \<Rightarrow> format_results ser items res (lg @ [Serialize_error (athlete_id a) e])
      | Inr d \<Rightarrow> format_results ser items (res @ [d]) lg)"

definition search_payload_of :: "int \<Rightarrow> pagination \<Rightarrow> 'd list \<Rightarrow> 'd search_payload" where
  "search_payload_of page pg res =
     \<lparr>results = res, r_count = length res, r_total = pg_total pg, r_page = page,
      r_pages = pg_pages pg, r_has_next = has_next pg, r_has_prev = has_prev pg\<rparr>"

definition error_message :: "bool \<Rightarrow> exn \<Rightarrow> msg" where
  "error_message debug e = (if debug then Str_of e else Internal_error)"

text \<open>
  The body of \<^verbatim>\<open>AthleteSearch.get\<close>, lines 146 to 191. The builder called at line 153
  is the parameter \<open>build\<close>; it is given the plain dict of line 148. Line 180 reports
  the \<^verbatim>\<open>page\<close> of line 149, not the page of the pagination.
\<close>

definition search_handler :: "(params \<Rightarrow> exn + query) \<Rightarrow> bool \<Rightarrow> (athlete \<Rightarrow> exn + 'd)
    \<Rightarrow> (string \<Rightarrow> string \<Rightarrow> bool) \<Rightarrow> athlete list \<Rightarrow> (string \<times> string) list
    \<Rightarrow> 'd search_payload response \<times> log_entry list" where
  "search_handler build debug ser ilike db args =
     (let params = Dict args in
      case then_do (page_arg params) (\<lambda>page.
           then_do (per_page_arg params) (\<lambda>per_page.
           then_do (build params) (\<lambda>q.
           then_do (paginate ilike db q page per_page 100) (\<lambda>pg. Inr (page, pg))))) of
        Inl e \<Rightarrow> (Error500 ''Search failed'' (error_message debug e), [Search_error e])
      | Inr (page, pg) \<Rightarrow>
          (case format_results ser (pg_items pg) [] [] of
             (res, lg) \<Rightarrow>
               (Ok200 (search_payload_of page pg res),
                lg @ (if debug then [Search_executed (length res)] else []))))"

text \<open>The handler of the repository: the body with the builder of this module.\<close>

definition AthleteSearch_get :: "bool \<Rightarrow> (athlete \<Rightarrow> exn + 'd) \<Rightarrow> (string \<Rightarrow> string \<Rightarrow> bool)
    \<Rightarrow> (string \<Rightarrow> rat option) \<Rightarrow> date \<Rightarrow> athlete list \<Rightarrow> (string \<times> string) list
    \<Rightarrow> 'd search_payload response \<times> log_entry list" where
  "AthleteSearch_get debug ser ilike pf today db args =
     search_handler (build_search_query today pf) debug ser ilike db args"

subsection \<open>\<^verbatim>\<open>FeaturedAthletes.get\<close>\<close>

text \<open>
  \<open>full_name\<close> is the property \<^verbatim>\<open>User.full_name\<close> and \<open>fmt\<close> is
  \<^verbatim>\<open>_format_stat_value\<close>, which computes on floating-point numbers; both are
  parameters that give a string or raise. A stat value is numeric, so it is never equal
  to the string \<^verbatim>\<open>"N/A"\<close>, which only stands for a missing stat.
\<close>

record featured_entry =
  f_id :: nat
  f_name :: string
  f_position :: "string option"
  f_team :: string
  f_sport :: "string option"
  f_profile_image_url :: "string option"
  f_initials :: string
  f_stats :: "(string \<times> string) list"
  f_rating :: "rat option"

definition stat_mappings :: "string option \<Rightarrow> (string \<times> string) list" where
  "stat_mappings code =
     (if code = Some ''NBA'' then
        [(''PPG'', ''PointsPerGame''), (''RPG'', ''ReboundsPerGame''),
         (''APG'', ''AssistsPerGame'')]
      else if code = Some ''NFL'' then
        [(''Yards'', ''PassingYards''), (''TD'', ''Touchdowns''), (''QBR'', ''QBRating'')]
      else if code = Some ''MLB'' then
        [(''AVG'', ''BattingAverage''), (''HR'', ''HomeRuns''), (''RBI'', ''RunsBattedIn'')]
      else if code = Some ''NHL'' then
        [(''G'', ''Goals''), (''A'', ''Assists''), (''P'', ''Points'')]
      else [])"

text \<open>
  The dictionary comprehension of line 292: of two stats with one name in the season,
  the later one stays.
\<close>

definition stat_dict :: "athlete \<Rightarrow> int \<Rightarrow> string \<Rightarrow> rat option" where
  "stat_dict a y =
     map_of (rev (map (\<lambda>s. (stat_name s, stat_value s))
                   (filter (\<lambda>s. season s = str_nat (nat y)) (stats a))))"

fun stats_loop :: "(rat \<Rightarrow> exn + string) \<Rightarrow> (string \<Rightarrow> rat option) \<Rightarrow> (string \<times> string) list
    \<Rightarrow> (string \<times> string) list \<Rightarrow> exn + (string \<times> string) list" where
  "stats_loop fmt d [] acc = Inr acc"
| "stats_loop fmt d ((label, name) # mapping) acc =
     (case d name of
        None \<Rightarrow> stats_loop fmt d mapping (acc @ [(label, ''N/A'')])
      | Some v \<Rightarrow>
          (case fmt v of
             Inl e \<Rightarrow> Inl e
           | Inr s \<Rightarrow> stats_loop fmt d mapping (acc @ [(label, s)])))"

definition get_athlete_stats :: "(rat \<Rightarrow> exn + string) \<Rightarrow> athlete \<Rightarrow> int
    \<Rightarrow> exn + (string \<times> string) list" where
  "get_athlete_stats fmt a y =
     stats_loop fmt (stat_dict a y)
       (stat_mappings (map_option sport_code (primary_sport a))) []"

text \<open>
  The first letters of the first two words of the name. A word of \<^verbatim>\<open>split()\<close> is never
  empty, so \<^verbatim>\<open>n[0]\<close> is its first character.
\<close>

definition initials_of :: "string \<Rightarrow> string" where
  "initials_of name = upper (concat (take 2 (map (take 1) (split_ws [] name))))"

definition format_featured_item :: "(user \<Rightarrow> exn + string) \<Rightarrow> (rat \<Rightarrow> exn + string) \<Rightarrow> int
    \<Rightarrow> athlete \<Rightarrow> exn + featured_entry" where
  "format_featured_item full_name fmt y a =
     then_do (case user a of
                Some u \<Rightarrow> full_name u
              | None \<Rightarrow> Inr (''Athlete '' @ str_nat (athlete_id a))) (\<lambda>name.
     then_do (get_athlete_stats fmt a y) (\<lambda>sts.
       Inr \<lparr>f_id = athlete_id a,
            f_name = name,
            f_position = map_option position_code (primary_position a),
            f_team = (case current_team a of
                        None \<Rightarrow> ''Free Agent''
                      | Some t \<Rightarrow> if t = [] then ''Free Agent'' else t),
            f_sport = map_option sport_code (primary_sport a),
            f_profile_image_url = profile_image_url a,
            f_initials = initials_of name,
            f_stats = sts,
            f_rating = (case overall_rating a of
                          None \<Rightarrow> None
                        | Some r \<Rightarrow> if r = 0 then None else Some r)\<rparr>))"

text \<open>The loop of lines 227 to 249.\<close>

fun format_featured :: "(athlete \<Rightarrow> exn + 'e) \<Rightarrow> athlete list \<Rightarrow> 'e list \<Rightarrow> log_entry list
    \<Rightarrow> 'e list \<times> log_entry list" where
  "format_featured item [] featured lg = (featured, lg)"
| "format_featured item (a # athletes) featured lg =
     (case item a of
        Inl e \<Rightarrow> format_featured item athletes featured (lg @ [Process_error (athlete_id a) e])
      | Inr d \<Rightarrow> format_featured item athletes (featured @ [d]) lg)"

text \<open>
  The query of lines 207 to 224 without its loader options, which select no rows.
\<close>

definition featured_base :: query where
  "featured_base =
     \<lparr>where_conds = [Is_deleted_eq False, Is_featured_eq True], join_user = True,
      limit_clause = None, offset_clause = None, order_clause = []\<rparr>"

definition featured_query :: "(string \<Rightarrow> string \<Rightarrow> bool) \<Rightarrow> athlete list \<Rightarrow> int
    \<Rightarrow> exn + athlete list" where
  "featured_query ilike db limit =
     then_do (query_order_by [Rating_desc] featured_base) (\<lambda>q.
       query_all ilike db (query_limit limit q))"

text \<open>
  The loader option \<^verbatim>\<open>db.subqueryload(AthleteProfile.stats)\<close> is an object without
  an attribute \<^verbatim>\<open>filter\<close>: the call written in line 217 raises \<^verbatim>\<open>AttributeError\<close>
  while the arguments of \<^verbatim>\<open>options\<close> are evaluated, before the query is run.
\<close>

definition subqueryload_filter :: "exn + unit" where
  "subqueryload_filter = Inl AttributeError"

definition limit_arg :: "(string \<times> string) list \<Rightarrow> int" where
  "limit_arg args =
     min (case map_of args ''limit'' of
            None \<Rightarrow> 6
          | Some s \<Rightarrow> (case py_int s of None \<Rightarrow> 6 | Some n \<Rightarrow> n)) 20"

definition FeaturedAthletes_get :: "bool \<Rightarrow> (user \<Rightarrow> exn + string) \<Rightarrow> (rat \<Rightarrow> exn + string)
    \<Rightarrow> (string \<Rightarrow> string \<Rightarrow> bool) \<Rightarrow> date \<Rightarrow> athlete list \<Rightarrow> (string \<times> string) list
    \<Rightarrow> featured_entry list response \<times> log_entry list" where
  "FeaturedAthletes_get debug full_name fmt ilike today db args =
     (let limit = limit_arg args; y = year today in
      case then_do subqueryload_filter (\<lambda>_. featured_query ilike db limit) of
        Inl e \<Rightarrow>
          (Error500 ''Failed to get featured athletes'' (error_message debug e),
           [Featured_error e])
      | Inr athletes \<Rightarrow>
          (case format_featured (format_featured_item full_name fmt y) athletes [] [] of
             (featured, lg) \<Rightarrow> (Ok200 featured, lg)))"

section \<open>Notions of the specification\<close>

text \<open>A row for concrete instances: a featured athlete with a user and no sport.\<close>

definition athlete_row :: "nat \<Rightarrow> bool \<Rightarrow> rat option \<Rightarrow> string \<Rightarrow> string \<Rightarrow> date option
    \<Rightarrow> athlete" where
  "athlete_row i deleted rating fname lname dob =
     \<lparr>athlete_id = i, is_deleted = deleted, is_featured = True,
      user = Some \<lparr>first_name = fname, last_name = lname\<rparr>,
      primary_sport = None, primary_position = None, current_team = None,
      date_of_birth = dob, height_cm = None, weight_kg = None, contract_active = None,
      overall_rating = rating, profile_image_url = None, stats = []\<rparr>"

text \<open>
  The order the specification describes for search results: rating descending with the
  missing ratings last, then last name, then first name. \<open>rating_before\<close> is the strict
  order of the first key.
\<close>

definition last_name_of :: "athlete \<Rightarrow> string" where
  "last_name_of a = (case user a of None \<Rightarrow> [] | Some u \<Rightarrow> last_name u)"

definition first_name_of :: "athlete \<Rightarrow> string" where
  "first_name_of a = (case user a of None \<Rightarrow> [] | Some u \<Rightarrow> first_name u)"

definition rating_before :: "rat option \<Rightarrow> rat option \<Rightarrow> bool" where
  "rating_before r1 r2 =
     (case r1 of
        None \<Rightarrow> False
      | Some x \<Rightarrow> (case r2 of None \<Rightarrow> True | Some y \<Rightarrow> y < x))"

definition search_le :: "athlete \<Rightarrow> athlete \<Rightarrow> bool" where
  "search_le a b =
     (rating_before (overall_rating a) (overall_rating b) \<or>
      (overall_rating a = overall_rating b \<and>
       (last_name_of a < last_name_of b \<or>
        (last_name_of a = last_name_of b \<and> first_name_of a \<le> first_name_of b))))"

text \<open>
  What a loop over items with a handler around each item should produce: the results of
  the items that do not raise, in order, and one log entry for each item that raises.
\<close>

definition successes :: "('a \<Rightarrow> exn + 'd) \<Rightarrow> 'a list \<Rightarrow> 'd list" where
  "successes f items =
     List.map_filter (\<lambda>a. case f a of Inl e \<Rightarrow> None | Inr d \<Rightarrow> Some d) items"

definition failures :: "(athlete \<Rightarrow> exn + 'd) \<Rightarrow> (nat \<Rightarrow> exn \<Rightarrow> log_entry) \<Rightarrow> athlete list
    \<Rightarrow> log_entry list" where
  "failures f mk items =
     List.map_filter
       (\<lambda>a. case f a of Inl e \<Rightarrow> Some (mk (athlete_id a) e) | Inr d \<Rightarrow> None) items"

text \<open>
  What the inner handler of \<^verbatim>\<open>to_dict\<close> leaves under a relationship's key, given the
  entry \<open>old\<close> that the key had before.
\<close>

definition stored :: "('dt \<Rightarrow> string) \<Rightarrow> exn + ('v, 'dt) related \<Rightarrow> 'v jval option
    \<Rightarrow> 'v jval option" where
  "stored isofmt got old =
     (case expand_relationship isofmt got of
        Inl e \<Rightarrow> Some JNone
      | Inr None \<Rightarrow> old
      | Inr (Some v) \<Rightarrow> Some v)"

section \<open>Properties of the conversion to integers\<close>

text \<open>
  \<^verbatim>\<open>int\<close> refuses a literal of more than 4300 digits, and it refuses the separators
  that \<^verbatim>\<open>str.strip\<close> removes.
\<close>

lemma digit_not_space: "is_digit c \<Longrightarrow> \<not> int_isspace c"
  by (auto simp: is_digit_def int_isspace_def Let_def)

lemma dropWhile_hd: "xs \<noteq> [] \<Longrightarrow> \<not> P (hd xs) \<Longrightarrow> dropWhile P xs = xs"
  by (cases xs) auto

lemma int_strip_digits:
  assumes "list_all is_digit s"
  shows "int_strip s = s"
proof (cases "s = []")
  case True
  then show ?thesis by (simp add: int_strip_def)
next
  case False
  with assms have h: "\<not> int_isspace (hd s)" and l: "\<not> int_isspace (hd (rev s))"
    by (auto simp: digit_not_space list_all_iff hd_rev)
  from False h have "dropWhile int_isspace s = s" by (rule dropWhile_hd)
  moreover from False l have "dropWhile int_isspace (rev s) = rev s"
    by (simp add: dropWhile_hd)
  ultimately show ?thesis by (simp add: int_strip_def)
qed

lemma py_int_digit_limit:
  assumes d: "list_all is_digit s" and n: "max_str_digits < length s"
  shows "py_int s = None"
proof -
  from n obtain c cs where s: "s = c # cs" by (cases s) auto
  with d have c: "is_digit c" by simp
  then have "c \<noteq> CHR ''-''" and "c \<noteq> CHR ''+''" by (auto simp: is_digit_def)
  moreover from d have "filter is_digit s = s" by (simp add: list_all_iff filter_id_conv)
  ultimately show ?thesis
    using int_strip_digits [OF d] s c n by (simp add: py_int_def unsigned_value_def)
qed

lemma py_int_separator:
  "py_int (CHR 0x1C # ''500'') = None \<and> strip (CHR 0x1C # ''500'') = ''500'' \<and>
   py_int (CHR 0x09 # ''500 '') = Some 500"
  by (simp add: py_int_def int_strip_def int_isspace_def strip_def py_isspace_def
      max_str_digits_def unsigned_value_def is_digit_def digit_val_def)

section \<open>Properties of the base model\<close>

subsection \<open>Deletion\<close>

lemma mark_deleted_ids: "map ent_id (mark_deleted self tbl) = map ent_id tbl"
  by (simp add: mark_deleted_def comp_def)

lemma mark_deleted_flags:
  "list_all (\<lambda>r. if ent_id r = ent_id self then flag r = Some True else True)
     (mark_deleted self tbl)"
  by (induction tbl) (simp_all add: mark_deleted_def)

lemma flush_flag_keeps_rows:
  "set (map ent_id tbl) \<subseteq> set (map ent_id (flush_flag self tbl))"
  by (auto simp: flush_flag_def mark_deleted_ids simp del: set_map)

text \<open>
  Claim C7, as the code has it. A call of \<open>delete\<close> that returns \<^verbatim>\<open>True\<close> removes
  no row when soft deletion is requested and the entity's class has the attribute
  \<^verbatim>\<open>is_deleted\<close>. The stored row then carries the flag when the instance belongs to
  the session: the row of a persistent instance is the old row with the flag set, and a
  pending instance is inserted with the flag set. For an instance that is not in the
  session the table is left as it is. In every other case (a hard delete, or a class
  without the attribute) the entity's row was stored and is removed.
\<close>

theorem delete_soft_by_default:
  assumes "delete commit_error self soft tbl = (Inr True, tbl')"
  shows "if soft \<and> hasattr_is_deleted self
         then set (map ent_id tbl) \<subseteq> set (map ent_id tbl') \<and>
              (if \<not> in_session self then tbl' = tbl
               else if persisted tbl self
                 then tbl' = mark_deleted self tbl \<and> map ent_id tbl' = map ent_id tbl \<and>
                   persisted tbl' self \<and>
                   list_all (\<lambda>r. if ent_id r = ent_id self then flag r = Some True else True)
                     tbl'
                 else tbl' = tbl @ [\<lparr>ent_id = ent_id self, flag = Some True\<rparr>] \<and>
                   persisted tbl' self)
         else persisted tbl self \<and> tbl' = remove_row self tbl \<and> \<not> persisted tbl' self"
proof (cases "soft \<and> hasattr_is_deleted self")
  case True
  with assms have t: "tbl' = flush_flag self tbl"
    by (auto simp: delete_def commit_def split: option.splits)
  have keeps: "set (map ent_id tbl) \<subseteq> set (map ent_id tbl')"
    unfolding t by (rule flush_flag_keeps_rows)
  show ?thesis
  proof (cases "in_session self")
    case False
    with True keeps t show ?thesis by (simp add: flush_flag_def)
  next
    case s: True
    show ?thesis
    proof (cases "persisted tbl self")
      case p: True
      from s p t have m: "tbl' = mark_deleted self tbl" by (simp add: flush_flag_def)
      from p have "persisted (mark_deleted self tbl) self"
        by (simp add: persisted_def mark_deleted_ids del: set_map)
      with True keeps s p m mark_deleted_ids [of self tbl] mark_deleted_flags [of self tbl]
      show ?thesis by simp
    next
      case p: False
      from s p t have "tbl' = tbl @ [\<lparr>ent_id = ent_id self, flag = Some True\<rparr>]"
        by (simp add: flush_flag_def)
      with True keeps s p show ?thesis by (simp add: persisted_def)
    qed
  qed
next
  case False
  have gone: "\<not> persisted (remove_row self tbl) self"
    by (auto simp: persisted_def remove_row_def)
  from False assms have "persisted tbl self" and "tbl' = remove_row self tbl"
    by (auto simp: delete_def commit_def split: option.splits if_splits)
  with False gone show ?thesis by auto
qed

theorem delete_soft_by_default_witness:
  "delete (\<lambda>_. None) \<lparr>ent_id = 2, flag = Some False, in_session = True\<rparr> True
      [\<lparr>ent_id = 1, flag = None\<rparr>, \<lparr>ent_id = 2, flag = Some False\<rparr>] =
     (Inr True, [\<lparr>ent_id = 1, flag = None\<rparr>, \<lparr>ent_id = 2, flag = Some True\<rparr>]) \<and>
   persisted [\<lparr>ent_id = 1, flag = None\<rparr>, \<lparr>ent_id = 2, flag = Some True\<rparr>]
      \<lparr>ent_id = 2, flag = Some False, in_session = True\<rparr> \<and>
   delete (\<lambda>_. None) \<lparr>ent_id = 2, flag = Some False, in_session = False\<rparr> True
      [\<lparr>ent_id = 1, flag = None\<rparr>, \<lparr>ent_id = 2, flag = Some False\<rparr>] =
     (Inr True, [\<lparr>ent_id = 1, flag = None\<rparr>, \<lparr>ent_id = 2, flag = Some False\<rparr>]) \<and>
   delete (\<lambda>_. None) \<lparr>ent_id = 3, flag = Some False, in_session = True\<rparr> True
      [\<lparr>ent_id = 1, flag = None\<rparr>, \<lparr>ent_id = 2, flag = Some False\<rparr>] =
     (Inr True, [\<lparr>ent_id = 1, flag = None\<rparr>, \<lparr>ent_id = 2, flag = Some False\<rparr>,
       \<lparr>ent_id = 3, flag = Some True\<rparr>]) \<and>
   delete (\<lambda>_. None) \<lparr>ent_id = 2, flag = Some False, in_session = False\<rparr> False
      [\<lparr>ent_id = 1, flag = None\<rparr>, \<lparr>ent_id = 2, flag = Some False\<rparr>] =
     (Inr True, [\<lparr>ent_id = 1, flag = None\<rparr>]) \<and>
   \<not> persisted [\<lparr>ent_id = 1, flag = None\<rparr>]
      \<lparr>ent_id = 2, flag = Some False, in_session = False\<rparr>"
proof -
  let ?tbl = "[\<lparr>ent_id = 1, flag = None\<rparr>, \<lparr>ent_id = 2, flag = Some False\<rparr>]"
  let ?marked = "[\<lparr>ent_id = 1, flag = None\<rparr>, \<lparr>ent_id = 2, flag = Some True\<rparr>]"
  let ?e = "\<lparr>ent_id = 2, flag = Some False, in_session = True\<rparr>"
  let ?d = "\<lparr>ent_id = 2, flag = Some False, in_session = False\<rparr>"
  let ?n = "\<lparr>ent_id = 3, flag = Some False, in_session = True\<rparr>"
  have s: "delete (\<lambda>_. None) ?e True ?tbl = (Inr True, ?marked)"
    by (simp add: delete_def hasattr_is_deleted_def commit_def flush_flag_def persisted_def
        mark_deleted_def)
  have u: "delete (\<lambda>_. None) ?d True ?tbl = (Inr True, ?tbl)"
    by (simp add: delete_def hasattr_is_deleted_def commit_def flush_flag_def)
  have i: "delete (\<lambda>_. None) ?n True ?tbl =
      (Inr True, ?tbl @ [\<lparr>ent_id = 3, flag = Some True\<rparr>])"
    by (simp add: delete_def hasattr_is_deleted_def commit_def flush_flag_def persisted_def)
  have h: "delete (\<lambda>_. None) ?d False ?tbl = (Inr True, [\<lparr>ent_id = 1, flag = None\<rparr>])"
    by (simp add: delete_def hasattr_is_deleted_def commit_def persisted_def remove_row_def)
  from delete_soft_by_default [OF s] have p: "persisted ?marked ?e"
    by (simp add: hasattr_is_deleted_def persisted_def mark_deleted_def)
  from delete_soft_by_default [OF h]
  have g: "\<not> persisted [\<lparr>ent_id = 1, flag = None\<rparr>] ?d"
    by (simp add: hasattr_is_deleted_def persisted_def remove_row_def)
  from s p u i h g show ?thesis by simp
qed

text \<open>
  The claim as it was stated fails for an entity whose class has no \<^verbatim>\<open>is_deleted\<close>
  attribute: a soft delete, the default, removes its row.
\<close>

theorem delete_without_flag_counterexample:
  "delete (\<lambda>_. None) \<lparr>ent_id = 1, flag = None, in_session = True\<rparr> True
      [\<lparr>ent_id = 1, flag = None\<rparr>, \<lparr>ent_id = 2, flag = Some False\<rparr>] =
     (Inr True, [\<lparr>ent_id = 2, flag = Some False\<rparr>])"
  by (simp add: delete_def hasattr_is_deleted_def persisted_def remove_row_def commit_def)

subsection \<open>Serialization\<close>

lemma map_of_dict_set: "map_of (dict_set k v d) = (map_of d)(k \<mapsto> v)"
  by (induction d) (auto simp: fun_eq_iff)

lemma relationship_step_same:
  "map_of (relationship_step isofmt data (key, got)) key =
     stored isofmt got (map_of data key)"
  by (simp add: relationship_step_def stored_def map_of_dict_set
      split: sum.splits option.splits)

lemma relationship_step_other:
  "k \<noteq> key \<Longrightarrow> map_of (relationship_step isofmt data (key, got)) k = map_of data k"
  by (simp add: relationship_step_def stored_def map_of_dict_set
      split: sum.splits option.splits)

lemma map_of_relationship_loop:
  "distinct (map fst rels) \<Longrightarrow>
   map_of (foldl (relationship_step isofmt) data rels) k =
     (case map_of rels k of
        None \<Rightarrow> map_of data k
      | Some got \<Rightarrow> stored isofmt got (map_of data k))"
proof (induction rels arbitrary: data)
  case Nil
  then show ?case by simp
next
  case (Cons r rels)
  obtain key got where r: "r = (key, got)" by (cases r)
  from Cons.prems have d: "distinct (map fst rels)" and nk: "key \<notin> fst ` set rels"
    by (auto simp: r)
  have nk': "map_of rels key = None" using nk by (simp add: map_of_eq_None_iff)
  show ?case
    using Cons.IH [OF d, of "relationship_step isofmt data r"] nk' unfolding r
    by (cases "k = key") (simp_all add: relationship_step_same relationship_step_other
        split: option.splits)
qed

lemma to_dict_with_relationships:
  assumes "column_loop isofmt (columns m) [] = Inr data"
  shows "to_dict isofmt m True = Inr (foldl (relationship_step isofmt) data (relationships m))"
  using assms by (simp add: to_dict_def)

lemma to_dict_flat: "to_dict isofmt m False = to_dict_columns isofmt m"
  by (simp add: to_dict_def to_dict_columns_def split: sum.splits)

lemma expand_items_iff:
  "expand_items isofmt its = Inr vs \<longleftrightarrow>
     list_all2 (\<lambda>it v. expand_item isofmt it = Inr v) its vs"
proof (induction its arbitrary: vs)
  case Nil
  show ?case by auto
next
  case (Cons it its)
  have "expand_items isofmt (it # its) = Inr vs \<longleftrightarrow>
      (\<exists>v vs'. expand_item isofmt it = Inr v \<and> expand_items isofmt its = Inr vs' \<and>
         vs = v # vs')"
    by (auto split: sum.splits)
  also have "\<dots> \<longleftrightarrow>
      (\<exists>v vs'. expand_item isofmt it = Inr v \<and>
         list_all2 (\<lambda>it v. expand_item isofmt it = Inr v) its vs' \<and> vs = v # vs')"
    using Cons.IH by simp
  also have "\<dots> \<longleftrightarrow> list_all2 (\<lambda>it v. expand_item isofmt it = Inr v) (it # its) vs"
    by (auto simp: list_all2_Cons1)
  finally show ?case .
qed

text \<open>
  Claim C10. \<open>to_dict\<close> always returns a dictionary. When reading a column raises, the
  dictionary is empty. When the expansion of a relationship raises, the key of that
  relationship holds \<open>JNone\<close>, every column keeps its entry, and every other relationship
  holds what its own expansion stores.
\<close>

theorem to_dict_never_raises:
  "(\<exists>d. to_dict isofmt m incl = Inr d) \<and>
   (column_loop isofmt (columns m) [] = Inl e \<longrightarrow> to_dict isofmt m incl = Inr []) \<and>
   (column_loop isofmt (columns m) [] = Inr data \<longrightarrow>
    distinct (map fst (relationships m)) \<longrightarrow>
    (key, got) \<in> set (relationships m) \<longrightarrow>
    expand_relationship isofmt got = Inl e' \<longrightarrow>
      (\<exists>d. to_dict isofmt m True = Inr d \<and> map_of d key = Some JNone \<and>
           (\<forall>k. map_of (relationships m) k = None \<longrightarrow> map_of d k = map_of data k) \<and>
           (\<forall>k other. k \<noteq> key \<longrightarrow> map_of (relationships m) k = Some other \<longrightarrow>
              map_of d k = stored isofmt other (map_of data k))))"
proof (intro conjI impI)
  show "\<exists>d. to_dict isofmt m incl = Inr d"
    by (simp add: to_dict_def split: sum.splits)
  show "to_dict isofmt m incl = Inr []" if "column_loop isofmt (columns m) [] = Inl e"
    using that by (simp add: to_dict_def)
  show "\<exists>d. to_dict isofmt m True = Inr d \<and> map_of d key = Some JNone \<and>
           (\<forall>k. map_of (relationships m) k = None \<longrightarrow> map_of d k = map_of data k) \<and>
           (\<forall>k other. k \<noteq> key \<longrightarrow> map_of (relationships m) k = Some other \<longrightarrow>
              map_of d k = stored isofmt other (map_of data k))"
    if c: "column_loop isofmt (columns m) [] = Inr data"
      and d: "distinct (map fst (relationships m))"
      and r: "(key, got) \<in> set (relationships m)"
      and x: "expand_relationship isofmt got = Inl e'"
  proof -
    have look: "map_of (relationships m) key = Some got"
      using d r by simp
    show ?thesis
      using look x
      by (simp add: to_dict_with_relationships [OF c] map_of_relationship_loop [OF d]
          stored_def)
  qed
qed

theorem to_dict_never_raises_witness:
  "to_dict (\<lambda>t::nat. ''T'') (Model [(''id'', Inl DatabaseError)] [] :: (nat, nat) model) True
     = Inr [] \<and>
   (\<exists>d. to_dict (\<lambda>t::nat. ''T'')
          (Model [(''id'', Inr (Plain (7::nat)))]
             [(''user'', Inl DatabaseError), (''tags'', Inr (Collection [NoToDict (Inr ''a'')]))])
          True = Inr d \<and>
        map_of d ''user'' = Some JNone \<and> map_of d ''id'' = Some (JPlain 7) \<and>
        map_of d ''tags'' = Some (JList [JStr ''a'']))"
proof -
  let ?bad = "Model [(''id'', Inl DatabaseError)] [] :: (nat, nat) model"
  let ?m = "Model [(''id'', Inr (Plain (7::nat)))]
             [(''user'', Inl DatabaseError), (''tags'', Inr (Collection [NoToDict (Inr ''a'')]))]
              :: (nat, nat) model"
  have b: "column_loop (\<lambda>t::nat. ''T'') (columns ?bad) [] = Inl DatabaseError" by simp
  have c: "column_loop (\<lambda>t::nat. ''T'') (columns ?m) [] = Inr [(''id'', JPlain 7)]" by simp
  have d: "distinct (map fst (relationships ?m))" by simp
  have r: "(''user'', Inl DatabaseError) \<in> set (relationships ?m)" by simp
  have x: "expand_relationship (\<lambda>t::nat. ''T'') (Inl DatabaseError :: exn + (nat, nat) related)
      = Inl DatabaseError"
    by (simp add: expand_relationship_def)
  have t: "stored (\<lambda>t::nat. ''T'') (Inr (Collection [NoToDict (Inr ''a'')]) :: exn + (nat, nat) related)
      None = Some (JList [JStr ''a''])"
    by (simp add: stored_def expand_relationship_def expand_item_def)
  from to_dict_never_raises [of "\<lambda>t::nat. ''T''" ?bad True DatabaseError]
  have first: "to_dict (\<lambda>t::nat. ''T'') ?bad True = Inr []"
    using b by blast
  from to_dict_never_raises [of "\<lambda>t::nat. ''T''" ?m True _ "[(''id'', JPlain 7)]"
      "''user''" "Inl DatabaseError" DatabaseError]
  have second: "\<exists>d. to_dict (\<lambda>t::nat. ''T'') ?m True = Inr d \<and> map_of d ''user'' = Some JNone \<and>
           (\<forall>k. map_of (relationships ?m) k = None \<longrightarrow> map_of d k = map_of [(''id'', JPlain 7)] k) \<and>
           (\<forall>k other. k \<noteq> ''user'' \<longrightarrow> map_of (relationships ?m) k = Some other \<longrightarrow>
              map_of d k = stored (\<lambda>t::nat. ''T'') other (map_of [(''id'', JPlain 7)] k))"
    using c d r x by blast
  then obtain d where dd: "to_dict (\<lambda>t::nat. ''T'') ?m True = Inr d"
    and u: "map_of d ''user'' = Some JNone"
    and cols: "\<forall>k. map_of (relationships ?m) k = None \<longrightarrow> map_of d k = map_of [(''id'', JPlain 7)] k"
    and others: "\<forall>k other. k \<noteq> ''user'' \<longrightarrow> map_of (relationships ?m) k = Some other \<longrightarrow>
              map_of d k = stored (\<lambda>t::nat. ''T'') other (map_of [(''id'', JPlain 7)] k)"
    by blast
  have i: "map_of d ''id'' = Some (JPlain 7)"
    using cols [rule_format, of "''id''"] by simp
  have g: "map_of d ''tags'' = Some (JList [JStr ''a''])"
    using others [rule_format, of "''tags''" "Inr (Collection [NoToDict (Inr ''a'')])"] t by simp
  show ?thesis using first dd u i g by blast
qed

text \<open>
  Claim C9, as the code has it. With relationships included, the key of a relationship
  holds: the related model's dictionary of columns only (one level) for a single model; the
  string of a single item that has no \<^verbatim>\<open>to_dict\<close>; the list of these for a non-empty
  collection; \<open>JNone\<close> when reading or expanding the relationship raises; and what the
  columns left there when the related value is \<^verbatim>\<open>None\<close> or an empty collection.
\<close>

theorem relationship_expansion:
  assumes "column_loop isofmt (columns m) [] = Inr data"
    and "distinct (map fst (relationships m))"
    and "(key, got) \<in> set (relationships m)"
  shows "\<exists>d. to_dict isofmt m True = Inr d \<and>
     (case got of
        Inl e \<Rightarrow> map_of d key = Some JNone
      | Inr (Single None) \<Rightarrow> map_of d key = map_of data key
      | Inr (Single (Some (HasToDict m'))) \<Rightarrow>
          (\<exists>d'. to_dict isofmt m' False = Inr d' \<and> map_of d key = Some (JDict d'))
      | Inr (Single (Some (NoToDict (Inl e)))) \<Rightarrow> map_of d key = Some JNone
      | Inr (Single (Some (NoToDict (Inr s)))) \<Rightarrow> map_of d key = Some (JStr s)
      | Inr (Collection its) \<Rightarrow>
          (if its = [] then map_of d key = map_of data key
           else (case expand_items isofmt its of
                   Inl e \<Rightarrow> map_of d key = Some JNone
                 | Inr vs \<Rightarrow>
                     list_all2 (\<lambda>it v. expand_item isofmt it = Inr v) its vs \<and>
                     map_of d key = Some (JList vs))))"
proof -
  have look: "map_of (relationships m) key = Some got"
    using assms(2,3) by simp
  have val: "map_of (foldl (relationship_step isofmt) data (relationships m)) key =
      stored isofmt got (map_of data key)"
    using look by (simp add: map_of_relationship_loop [OF assms(2)])
  have "case got of
        Inl e \<Rightarrow> stored isofmt got old = Some JNone
      | Inr (Single None) \<Rightarrow> stored isofmt got old = old
      | Inr (Single (Some (HasToDict m'))) \<Rightarrow>
          (\<exists>d'. to_dict isofmt m' False = Inr d' \<and> stored isofmt got old = Some (JDict d'))
      | Inr (Single (Some (NoToDict (Inl e)))) \<Rightarrow> stored isofmt got old = Some JNone
      | Inr (Single (Some (NoToDict (Inr s)))) \<Rightarrow> stored isofmt got old = Some (JStr s)
      | Inr (Collection its) \<Rightarrow>
          (if its = [] then stored isofmt got old = old
           else (case expand_items isofmt its of
                   Inl e \<Rightarrow> stored isofmt got old = Some JNone
                 | Inr vs \<Rightarrow>
                     list_all2 (\<lambda>it v. expand_item isofmt it = Inr v) its vs \<and>
                     stored isofmt got old = Some (JList vs)))" for old
  proof (cases got)
    case (Inl e)
    then show ?thesis by (simp add: stored_def expand_relationship_def)
  next
    case (Inr rel)
    show ?thesis
    proof (cases rel)
      case (Single io)
      then show ?thesis
        using Inr
        by (simp add: stored_def expand_relationship_def expand_item_def to_dict_flat
            to_dict_columns_def split: option.split item.split sum.split)
    next
      case (Collection its)
      have "list_all2 (\<lambda>it v. expand_item isofmt it = Inr v) its vs"
        if "expand_items isofmt its = Inr vs" for vs
        using that by (simp add: expand_items_iff)
      then show ?thesis
        using Inr Collection
        by (simp add: stored_def expand_relationship_def split: sum.split)
    qed
  qed
  from this [of "map_of data key"] show ?thesis
    unfolding to_dict_with_relationships [OF assms(1)] val [symmetric]
    by simp
qed

theorem relationship_expansion_witness:
  "\<exists>d. to_dict (\<lambda>t::nat. ''T'')
         (Model [(''id'', Inr (Plain (7::nat))), (''created_at'', Inr (DateTime 3))]
            [(''sport'', Inr (Single (Some (HasToDict
                (Model [(''code'', Inr (Plain 1))] [(''athletes'', Inl OtherError)])))))])
         True = Inr d \<and>
       map_of d ''sport'' = Some (JDict [(''code'', JPlain 1)])"
proof -
  let ?s = "Model [(''code'', Inr (Plain (1::nat)))] [(''athletes'', Inl OtherError)]
              :: (nat, nat) model"
  let ?m = "Model [(''id'', Inr (Plain (7::nat))), (''created_at'', Inr (DateTime 3))]
              [(''sport'', Inr (Single (Some (HasToDict ?s))))] :: (nat, nat) model"
  have c: "column_loop (\<lambda>t::nat. ''T'') (columns ?m) [] =
      Inr [(''id'', JPlain 7), (''created_at'', JStr ''T'')]"
    by simp
  have d: "distinct (map fst (relationships ?m))" by simp
  have r: "(''sport'', Inr (Single (Some (HasToDict ?s)))) \<in> set (relationships ?m)" by simp
  have f: "to_dict (\<lambda>t::nat. ''T'') ?s False = Inr [(''code'', JPlain 1)]"
    by (simp add: to_dict_def)
  show ?thesis
    using relationship_expansion [OF c d r] f by simp
qed

text \<open>
  The claim as it was stated fails: a relationship whose expansion raises holds
  \<open>JNone\<close>, not a string, also when some items of the collection have a string.
\<close>

theorem relationship_failure_counterexample:
  "to_dict (\<lambda>t::nat. ''T'')
     (Model [(''id'', Inr (Plain (7::nat)))]
            [(''user'', Inl DatabaseError),
             (''tags'', Inr (Collection [NoToDict (Inr ''a''), NoToDict (Inl OtherError)]))])
     True =
   Inr [(''id'', JPlain 7), (''user'', JNone), (''tags'', JNone)]"
  by (simp add: to_dict_def relationship_step_def expand_relationship_def expand_item_def)

section \<open>Properties of the handlers' loops\<close>

lemma format_results_acc:
  "format_results ser items res lg =
     (res @ successes ser items, lg @ failures ser Serialize_error items)"
  by (induction items arbitrary: res lg)
     (auto simp: successes_def failures_def List.map_filter_simps split: sum.splits)

lemma format_featured_acc:
  "format_featured f items res lg =
     (res @ successes f items, lg @ failures f Process_error items)"
  by (induction items arbitrary: res lg)
     (auto simp: successes_def failures_def List.map_filter_simps split: sum.splits)

lemma successes_keeps:
  "a \<in> set items \<Longrightarrow> f a = Inr d \<Longrightarrow> d \<in> set (successes f items)"
  by (induction items) (auto simp: successes_def split: sum.splits)

lemma successes_failures_length:
  "length (successes f items) + length (failures f mk items) = length items"
  by (induction items) (auto simp: successes_def failures_def split: sum.splits)

text \<open>
  Claim C8. The loop of the search handler and the loop of the featured handler return,
  for every list of fetched athletes, the results of the items whose serialization does
  not raise, in order, and one log entry for each item whose serialization raises; every
  item is in exactly one of the two.
\<close>

theorem item_failures_are_skipped:
  "format_results ser items [] [] =
     (successes ser items, failures ser Serialize_error items) \<and>
   format_featured f athletes [] [] =
     (successes f athletes, failures f Process_error athletes) \<and>
   length (successes ser items) + length (failures ser Serialize_error items) = length items \<and>
   length (successes f athletes) + length (failures f Process_error athletes) =
     length athletes"
proof (intro conjI)
  show "format_results ser items [] [] =
      (successes ser items, failures ser Serialize_error items)"
    using format_results_acc [of ser items "[]" "[]"] by simp
  show "format_featured f athletes [] [] =
      (successes f athletes, failures f Process_error athletes)"
    using format_featured_acc [of f athletes "[]" "[]"] by simp
  show "length (successes ser items) + length (failures ser Serialize_error items) =
      length items"
    by (rule successes_failures_length)
  show "length (successes f athletes) + length (failures f Process_error athletes) =
      length athletes"
    by (rule successes_failures_length)
qed

section \<open>Properties of the search query\<close>

lemma then_do_Inr_iff: "then_do r f = Inr y \<longleftrightarrow> (\<exists>x. r = Inr x \<and> f x = Inr y)"
  by (simp add: then_do_def split: sum.splits)

lemma finish_query_Inr:
  assumes "finish_query params fs = Inr q"
  shows "where_conds q = Is_deleted_eq False # tl (where_conds q) \<and> join_user q \<and>
           limit_clause q = None \<and> offset_clause q = None \<and> order_clause q = search_order"
  using assms
  by (auto simp: finish_query_def tab_handling_def Let_def then_do_def query_filter_def
      query_order_by_def no_limit_offset_def query_limit_def base_query_def split: if_splits)

lemma build_search_query_finish:
  assumes "build_search_query today pf params = Inr q"
  obtains f_sport f_position f_min_age f_max_age f_min_height f_max_height f_min_weight
    f_max_weight
  where "sport_filter params = Inr f_sport"
    and "position_filter params = Inr f_position"
    and "age_filter today params ''min_age'' Dob_le = Inr f_min_age"
    and "age_filter today params ''max_age'' Dob_ge = Inr f_max_age"
    and "int_filter params ''min_height'' Height_ge = Inr f_min_height"
    and "int_filter params ''max_height'' Height_le = Inr f_max_height"
    and "float_filter pf params ''min_weight'' Weight_ge = Inr f_min_weight"
    and "float_filter pf params ''max_weight'' Weight_le = Inr f_max_weight"
    and "finish_query params
           (text_filter params @ f_sport @ f_position @ team_filter params @
            f_min_age @ f_max_age @ f_min_height @ f_max_height @
            f_min_weight @ f_max_weight) = Inr q"
  using assms unfolding build_search_query_def then_do_Inr_iff by blast

lemma build_search_query_Inr:
  assumes "build_search_query today pf params = Inr q"
  shows "where_conds q = Is_deleted_eq False # tl (where_conds q) \<and> join_user q \<and>
           limit_clause q = None \<and> offset_clause q = None \<and> order_clause q = search_order"
  using assms by (elim build_search_query_finish) (rule finish_query_Inr)

lemma set_matching: "set (matching ilike db q) = {a \<in> set db. selects ilike q a}"
  by (simp add: matching_def)

lemma matching_page: "matching ilike db (query_offset n (query_limit m q)) = matching ilike db q"
proof -
  have "selects ilike (query_offset n (query_limit m q)) = selects ilike q"
    by (simp add: fun_eq_iff selects_def query_offset_def query_limit_def)
  then show ?thesis
    by (simp add: matching_def query_offset_def query_limit_def)
qed

lemma query_all_sublist:
  assumes "query_all ilike db q = Inr rows"
  shows "\<exists>i j. rows = take i (drop j (matching ilike db q))"
proof -
  let ?j = "nat (case offset_clause q of None \<Rightarrow> 0 | Some n \<Rightarrow> n)"
  let ?M = "matching ilike db q"
  from assms have "rows = drop ?j ?M \<or> rows = take (nat (the (limit_clause q))) (drop ?j ?M)"
    by (auto simp: query_all_def Let_def split: if_splits option.splits)
  moreover have "drop ?j ?M = take (length ?M) (drop ?j ?M)"
    by simp
  ultimately show ?thesis by metis
qed

lemma query_all_selected:
  assumes "query_all ilike db q = Inr rows" and "a \<in> set rows"
  shows "a \<in> set db \<and> selects ilike q a"
proof -
  from query_all_sublist [OF assms(1)] obtain i j
    where "rows = take i (drop j (matching ilike db q))" by blast
  with assms(2) have "a \<in> set (matching ilike db q)"
    by (auto dest: in_set_takeD in_set_dropD)
  then show ?thesis by (simp add: set_matching)
qed

lemma paginate_items:
  assumes "paginate ilike db q page per_page m = Inr pg"
  shows "\<exists>i j. pg_items pg = take i (drop j (matching ilike db q))"
proof -
  from assms obtain rows n k where
    "query_all ilike db (query_offset n (query_limit k q)) = Inr rows" and "pg_items pg = rows"
    by (auto simp: paginate_def Let_def then_do_def split: sum.splits)
  with query_all_sublist [of ilike db "query_offset n (query_limit k q)" rows]
  show ?thesis by (simp add: matching_page)
qed

lemma selects_not_deleted:
  "Is_deleted_eq False \<in> set (where_conds q) \<Longrightarrow> selects ilike q a \<Longrightarrow> \<not> is_deleted a"
  by (auto simp: selects_def list_all_iff)

text \<open>
  Claim C3. Every query that \<open>build_search_query\<close> returns, paginated, and the featured
  query give only rows whose \<open>is_deleted\<close> is false.
\<close>

theorem deleted_profiles_never_listed:
  "(build_search_query today pf params = Inr q \<longrightarrow>
    paginate ilike db q page per_page max_per_page = Inr pg \<longrightarrow>
      list_all (\<lambda>a. \<not> is_deleted a) (pg_items pg)) \<and>
   (featured_query ilike db limit = Inr rows \<longrightarrow> list_all (\<lambda>a. \<not> is_deleted a) rows)"
proof (intro conjI impI)
  assume b: "build_search_query today pf params = Inr q"
    and p: "paginate ilike db q page per_page max_per_page = Inr pg"
  from build_search_query_Inr [OF b] have w: "Is_deleted_eq False \<in> set (where_conds q)"
    by (metis list.set_intros(1))
  from paginate_items [OF p] obtain i j
    where "pg_items pg = take i (drop j (matching ilike db q))" by blast
  then have "set (pg_items pg) \<subseteq> set (matching ilike db q)"
    by (auto dest: in_set_takeD in_set_dropD)
  then show "list_all (\<lambda>a. \<not> is_deleted a) (pg_items pg)"
    using w by (auto simp: list_all_iff set_matching dest: selects_not_deleted)
next
  assume f: "featured_query ilike db limit = Inr rows"
  then obtain q where q: "query_order_by [Rating_desc] featured_base = Inr q"
    and a: "query_all ilike db (query_limit limit q) = Inr rows"
    by (auto simp: featured_query_def then_do_def split: sum.splits)
  from q have "Is_deleted_eq False \<in> set (where_conds (query_limit limit q))"
    by (auto simp: query_order_by_def featured_base_def query_limit_def split: if_splits)
  then show "list_all (\<lambda>a. \<not> is_deleted a) rows"
    using query_all_selected [OF a] by (auto simp: list_all_iff dest: selects_not_deleted)
qed

lemma Nil_less_iff: "([] :: string) < xs \<longleftrightarrow> [] \<noteq> xs"
  by (cases xs) simp_all

lemma search_key_le:
  "map (sort_val a) search_order \<le> map (sort_val b) search_order \<longleftrightarrow> search_le a b"
  by (auto simp: search_order_def sort_val_def search_le_def rating_before_def
      last_name_of_def first_name_of_def Nil_less_iff split: option.splits)

lemma matching_sorted:
  assumes "order_clause q = search_order"
  shows "sorted_wrt search_le (matching ilike db q)"
proof -
  have "sorted (map (\<lambda>a. map (sort_val a) search_order) (matching ilike db q))"
    by (simp add: matching_def assms)
  then show ?thesis
    by (simp add: sorted_map search_key_le)
qed

text \<open>
  Claim C6. The rows of every query that \<open>build_search_query\<close> returns, and the items of
  every page of it, are ordered by rating descending with the missing ratings last, then
  by last name, then by first name.
\<close>

theorem search_results_ordered:
  assumes "build_search_query today pf params = Inr q"
  shows "sorted_wrt search_le (matching ilike db q) \<and>
         (paginate ilike db q page per_page max_per_page = Inr pg \<longrightarrow>
            sorted_wrt search_le (pg_items pg))"
proof -
  from build_search_query_Inr [OF assms] have o: "order_clause q = search_order" by simp
  have m: "sorted_wrt search_le (matching ilike db q)" by (rule matching_sorted [OF o])
  have "sorted_wrt search_le (pg_items pg)"
    if "paginate ilike db q page per_page max_per_page = Inr pg"
  proof -
    from paginate_items [OF that] obtain i j
      where "pg_items pg = take i (drop j (matching ilike db q))" by blast
    with m show ?thesis by (simp add: sorted_wrt_take sorted_wrt_drop)
  qed
  with m show ?thesis by blast
qed








text \<open>
  A query that has a \<^verbatim>\<open>LIMIT\<close> cannot be paginated: the page is fetched with the
  page's own \<^verbatim>\<open>LIMIT\<close>, and the count of the total raises.
\<close>

lemma paginate_refuses_limit:
  "paginate ilike db (query_limit k q) page per_page m = Inl InvalidRequestError \<or>
   paginate ilike db (query_limit k q) page per_page m = Inl DatabaseError"
  by (auto simp: paginate_def Let_def then_do_def query_order_by_none_def no_limit_offset_def
      query_limit_def query_all_def query_offset_def split: sum.splits if_splits)

lemma top_tab_never_builds:
  assumes "lower (params_get_or params ''filter'' []) = ''top''"
  shows "build_search_query today pf params \<noteq> Inr q"
proof
  assume "build_search_query today pf params = Inr q"
  then obtain fs where "finish_query params fs = Inr q"
    by (elim build_search_query_finish)
  with assms show False
    by (auto simp: finish_query_def tab_handling_def then_do_def query_filter_def
        query_order_by_def no_limit_offset_def query_limit_def split: if_splits)
qed

lemma build_search_query_Dict: "build_search_query today pf (Dict kv) = Inl TypeError \<or>
   build_search_query today pf (Dict kv) = Inl ValueError"
  by (simp add: build_search_query_def then_do_def age_filter_def params_get_int_def
      split: sum.splits)
     (auto simp: sport_filter_def position_filter_def split: option.splits if_splits)

lemma malformed_page_raises:
  assumes "map_of args ''page'' = Some s" and "py_int s = None"
  shows "AthleteSearch_get debug ser ilike pf today db args =
     (Error500 ''Search failed'' (error_message debug ValueError), [Search_error ValueError])"
  using assms
  by (simp add: AthleteSearch_get_def search_handler_def page_arg_def params_get_def
      pairs_def then_do_def)

text \<open>
  Claim C1 fails on the code: a \<^verbatim>\<open>page\<close> or \<^verbatim>\<open>per_page\<close> parameter that is no integer
  makes \<^verbatim>\<open>int\<close> raise \<^verbatim>\<open>ValueError\<close> in line 149 or 150, and the handler answers
  with the error envelope of status 500.
\<close>

theorem malformed_page_is_an_error:
  "AthleteSearch_get debug ser ilike pf today db [(''page'', ''abc'')] =
     (Error500 ''Search failed'' (error_message debug ValueError), [Search_error ValueError]) \<and>
   AthleteSearch_get debug ser ilike pf today db [(''per_page'', ''ten'')] =
     (Error500 ''Search failed'' (error_message debug ValueError), [Search_error ValueError])"
  by (simp add: AthleteSearch_get_def search_handler_def page_arg_def per_page_arg_def
      params_get_def pairs_def then_do_def py_int_def int_strip_def int_isspace_def
      max_str_digits_def unsigned_value_def is_digit_def)

lemma lower_top: "lower ''top'' = ''top''"
  by (simp add: lower_def lower_char_def)

lemma build_top [simp]:
  "build_search_query today pf (MultiDict [(''filter'', ''top''), (''per_page'', ''50'')]) =
     Inl InvalidRequestError"
  by (simp add: build_search_query_def then_do_def sport_filter_def position_filter_def
      age_filter_def int_filter_def float_filter_def params_get_def params_get_int_def
      pairs_def finish_query_def tab_handling_def params_get_or_def lower_top
      text_filter_def team_filter_def strip_def query_limit_def query_order_by_def
      no_limit_offset_def base_query_def)

text \<open>
  Claim C2 fails on the code: with the filter tab \<^verbatim>\<open>top\<close> the query gets its
  \<^verbatim>\<open>LIMIT\<close> before \<^verbatim>\<open>order_by\<close> is called, which raises; the handler, which also
  passes a plain dictionary, answers with the error envelope of status 500.
\<close>

theorem top_tab_raises:
  "build_search_query today pf (MultiDict [(''filter'', ''top''), (''per_page'', ''50'')]) =
     Inl InvalidRequestError \<and>
   AthleteSearch_get debug ser ilike pf today db [(''filter'', ''top''), (''per_page'', ''50'')] =
     (Error500 ''Search failed'' (error_message debug TypeError), [Search_error TypeError])"
proof -
  have "py_int ''50'' = Some 50"
    by (simp add: py_int_def int_strip_def int_isspace_def max_str_digits_def
        unsigned_value_def is_digit_def digit_val_def)
  moreover have "build_search_query today pf (Dict [(''filter'', ''top''), (''per_page'', ''50'')])
      = Inl TypeError"
    by (simp add: build_search_query_def then_do_def sport_filter_def position_filter_def
        age_filter_def params_get_def params_get_int_def pairs_def)
  ultimately show ?thesis
    by (simp add: AthleteSearch_get_def search_handler_def page_arg_def per_page_arg_def
        params_get_def pairs_def then_do_def)
qed

lemma date_le_refl: "date_le d d"
  by (simp add: date_le_def)

lemma age_filter_Some:
  assumes "params_get_int params key = Inr (Some n)"
    and "age_filter today params key mk = Inr fa"
  shows "\<exists>cutoff. replace_year today (year today - n) = Inr cutoff \<and> fa = [mk cutoff]"
  using assms by (auto simp: age_filter_def then_do_def split: sum.splits)

lemma finish_query_conds:
  assumes "finish_query params fs = Inr q" and "c \<in> set fs"
  shows "\<exists>filters. where_conds q = [Is_deleted_eq False, AllOf filters] \<and> c \<in> set filters"
  using assms
  by (auto simp: finish_query_def tab_handling_def Let_def then_do_def query_filter_def
      query_order_by_def no_limit_offset_def query_limit_def base_query_def split: if_splits)

lemma list_all_removeAll:
  "P c \<Longrightarrow> list_all P (removeAll c fs) \<Longrightarrow> list_all P fs"
  by (induction fs) (auto split: if_splits)

lemma boundary_row_selected:
  assumes w: "where_conds q = [Is_deleted_eq False, AllOf fs]"
    and h: "holds ilike a c"
    and s: "selects ilike (q\<lparr>where_conds := [Is_deleted_eq False, AllOf (removeAll c fs)]\<rparr>) a"
    and d: "a \<in> set db"
  shows "a \<in> set (matching ilike db q)"
proof -
  from s have "list_all (holds ilike a) (removeAll c fs)" and j: "if join_user q then user a \<noteq> None else True"
    and n: "\<not> is_deleted a"
    by (simp_all add: selects_def)
  with h have "list_all (holds ilike a) fs" by (blast intro: list_all_removeAll)
  with j n w have "selects ilike q a" by (simp add: selects_def)
  with d show ?thesis by (simp add: set_matching)
qed

lemma age_bound_in_query:
  assumes b: "build_search_query today pf params = Inr q"
    and g: "params_get_int params key = Inr (Some n)"
    and k: "(key, mk) = (''min_age'', Dob_le) \<or> (key, mk) = (''max_age'', Dob_ge)"
  shows "\<exists>cutoff fs. replace_year today (year today - n) = Inr cutoff \<and>
           where_conds q = [Is_deleted_eq False, AllOf fs] \<and> mk cutoff \<in> set fs"
proof -
  from b obtain f_sport f_position f_min_age f_max_age f_min_height f_max_height f_min_weight
    f_max_weight
    where mn: "age_filter today params ''min_age'' Dob_le = Inr f_min_age"
      and mx: "age_filter today params ''max_age'' Dob_ge = Inr f_max_age"
      and fin: "finish_query params
           (text_filter params @ f_sport @ f_position @ team_filter params @
            f_min_age @ f_max_age @ f_min_height @ f_max_height @
            f_min_weight @ f_max_weight) = Inr q"
    by (rule build_search_query_finish)
  from k mn mx have "\<exists>fa. age_filter today params key mk = Inr fa \<and>
      (fa = f_min_age \<or> fa = f_max_age)"
    by auto
  then obtain fa where fa: "age_filter today params key mk = Inr fa"
    and which: "fa = f_min_age \<or> fa = f_max_age" by blast
  from age_filter_Some [OF g fa] obtain cutoff
    where r: "replace_year today (year today - n) = Inr cutoff" and e: "fa = [mk cutoff]"
    by blast
  from which e have "mk cutoff \<in> set (text_filter params @ f_sport @ f_position @
      team_filter params @ f_min_age @ f_max_age @ f_min_height @ f_max_height @
      f_min_weight @ f_max_weight)"
    by auto
  from finish_query_conds [OF fin this] r show ?thesis by blast
qed

text \<open>
  On the 29th of February an age bound that leads to a common year makes
  \<^verbatim>\<open>date.replace\<close> raise, and with it the function.
\<close>

lemma leap_day_cutoff_raises:
  "build_search_query (Date 2024 2 29) pf (MultiDict [(''min_age'', ''21'')]) = Inl ValueError"
proof -
  have "py_int ''21'' = Some 21"
    by (simp add: py_int_def int_strip_def int_isspace_def max_str_digits_def
        unsigned_value_def is_digit_def digit_val_def)
  then have "age_filter (Date 2024 2 29) (MultiDict [(''min_age'', ''21'')]) ''min_age'' Dob_le
      = Inl ValueError"
    by (simp add: age_filter_def params_get_int_def then_do_def replace_year_def
        valid_date_def days_in_month_def is_leap_def)
  then show ?thesis
    by (simp add: build_search_query_def then_do_def sport_filter_def position_filter_def
        params_get_def pairs_def)
qed

text \<open>
  The comparison itself is inclusive. When \<open>build_search_query\<close> returns a query for
  parameters with a \<^verbatim>\<open>min_age\<close> (or \<^verbatim>\<open>max_age\<close>) of \<open>n\<close>, the cutoff is today's date with
  the year lowered by \<open>n\<close>, the query's conjunction contains the comparison of the date
  of birth with the cutoff, a row born on the cutoff satisfies it, and such a row of the
  database is among the query's rows whenever the query's other conditions select it.
\<close>

lemma age_cutoff_inclusive:
  assumes "build_search_query today pf params = Inr q"
  shows "(params_get_int params ''min_age'' = Inr (Some n) \<longrightarrow>
          (\<exists>cutoff fs. replace_year today (year today - n) = Inr cutoff \<and>
             where_conds q = [Is_deleted_eq False, AllOf fs] \<and> Dob_le cutoff \<in> set fs \<and>
             (\<forall>a. date_of_birth a = Some cutoff \<longrightarrow>
                  holds ilike a (Dob_le cutoff) \<and>
                  (a \<in> set db \<longrightarrow>
                   selects ilike
                     (q\<lparr>where_conds :=
                          [Is_deleted_eq False, AllOf (removeAll (Dob_le cutoff) fs)]\<rparr>) a \<longrightarrow>
                   a \<in> set (matching ilike db q))))) \<and>
         (params_get_int params ''max_age'' = Inr (Some m) \<longrightarrow>
          (\<exists>cutoff fs. replace_year today (year today - m) = Inr cutoff \<and>
             where_conds q = [Is_deleted_eq False, AllOf fs] \<and> Dob_ge cutoff \<in> set fs \<and>
             (\<forall>a. date_of_birth a = Some cutoff \<longrightarrow>
                  holds ilike a (Dob_ge cutoff) \<and>
                  (a \<in> set db \<longrightarrow>
                   selects ilike
                     (q\<lparr>where_conds :=
                          [Is_deleted_eq False, AllOf (removeAll (Dob_ge cutoff) fs)]\<rparr>) a \<longrightarrow>
                   a \<in> set (matching ilike db q)))))"
proof (intro conjI impI)
  assume g: "params_get_int params ''min_age'' = Inr (Some n)"
  from age_bound_in_query [OF assms g, of Dob_le] obtain cutoff fs
    where r: "replace_year today (year today - n) = Inr cutoff"
      and w: "where_conds q = [Is_deleted_eq False, AllOf fs]"
      and c: "Dob_le cutoff \<in> set fs"
    by auto
  have "holds ilike a (Dob_le cutoff)" if "date_of_birth a = Some cutoff" for a
    using that by (simp add: date_le_refl)
  with r w c boundary_row_selected [OF w]
  show "\<exists>cutoff fs. replace_year today (year today - n) = Inr cutoff \<and>
             where_conds q = [Is_deleted_eq False, AllOf fs] \<and> Dob_le cutoff \<in> set fs \<and>
             (\<forall>a. date_of_birth a = Some cutoff \<longrightarrow>
                  holds ilike a (Dob_le cutoff) \<and>
                  (a \<in> set db \<longrightarrow>
                   selects ilike
                     (q\<lparr>where_conds :=
                          [Is_deleted_eq False, AllOf (removeAll (Dob_le cutoff) fs)]\<rparr>) a \<longrightarrow>
                   a \<in> set (matching ilike db q)))"
    by blast
next
  assume g: "params_get_int params ''max_age'' = Inr (Some m)"
  from age_bound_in_query [OF assms g, of Dob_ge] obtain cutoff fs
    where r: "replace_year today (year today - m) = Inr cutoff"
      and w: "where_conds q = [Is_deleted_eq False, AllOf fs]"
      and c: "Dob_ge cutoff \<in> set fs"
    by auto
  have "holds ilike a (Dob_ge cutoff)" if "date_of_birth a = Some cutoff" for a
    using that by (simp add: date_le_refl)
  with r w c boundary_row_selected [OF w]
  show "\<exists>cutoff fs. replace_year today (year today - m) = Inr cutoff \<and>
             where_conds q = [Is_deleted_eq False, AllOf fs] \<and> Dob_ge cutoff \<in> set fs \<and>
             (\<forall>a. date_of_birth a = Some cutoff \<longrightarrow>
                  holds ilike a (Dob_ge cutoff) \<and>
                  (a \<in> set db \<longrightarrow>
                   selects ilike
                     (q\<lparr>where_conds :=
                          [Is_deleted_eq False, AllOf (removeAll (Dob_ge cutoff) fs)]\<rparr>) a \<longrightarrow>
                   a \<in> set (matching ilike db q)))"
    by blast
qed

text \<open>
  Claim C5 fails on the code. The handler hands the plain dictionary of line 148 to the
  builder, whose \<^verbatim>\<open>params.get('min_age', type=int)\<close> of line 76 then raises
  \<^verbatim>\<open>TypeError\<close>: a request with an age bound is answered with the error envelope of
  status 500, no cutoff is computed and no profile is returned. Called with the
  framework's own mapping, the builder still raises on the 29th of February for a bound
  that leads to a common year, where \<^verbatim>\<open>date.replace\<close> of line 78 or 83 has no date to
  give.
\<close>

theorem age_bound_raises:
  "AthleteSearch_get debug ser ilike pf today db [(''min_age'', ''24'')] =
     (Error500 ''Search failed'' (error_message debug TypeError), [Search_error TypeError]) \<and>
   AthleteSearch_get debug ser ilike pf today db [(''max_age'', ''30'')] =
     (Error500 ''Search failed'' (error_message debug TypeError), [Search_error TypeError]) \<and>
   build_search_query (Date 2024 2 29) pf (MultiDict [(''min_age'', ''21'')]) = Inl ValueError \<and>
   build_search_query (Date 2024 2 29) pf (MultiDict [(''max_age'', ''21'')]) = Inl ValueError"
proof -
  have mn: "build_search_query today pf (Dict [(''min_age'', ''24'')]) = Inl TypeError"
    by (simp add: build_search_query_def then_do_def sport_filter_def position_filter_def
        age_filter_def params_get_def params_get_int_def pairs_def)
  have mx: "build_search_query today pf (Dict [(''max_age'', ''30'')]) = Inl TypeError"
    by (simp add: build_search_query_def then_do_def sport_filter_def position_filter_def
        age_filter_def params_get_def params_get_int_def pairs_def)
  have a: "AthleteSearch_get debug ser ilike pf today db [(''min_age'', ''24'')] =
     (Error500 ''Search failed'' (error_message debug TypeError), [Search_error TypeError])"
    using mn
    by (simp add: AthleteSearch_get_def search_handler_def page_arg_def per_page_arg_def
        params_get_def pairs_def then_do_def)
  have b: "AthleteSearch_get debug ser ilike pf today db [(''max_age'', ''30'')] =
     (Error500 ''Search failed'' (error_message debug TypeError), [Search_error TypeError])"
    using mx
    by (simp add: AthleteSearch_get_def search_handler_def page_arg_def per_page_arg_def
        params_get_def pairs_def then_do_def)
  have n: "py_int ''21'' = Some 21"
    by (simp add: py_int_def int_strip_def int_isspace_def max_str_digits_def
        unsigned_value_def is_digit_def digit_val_def)
  have lo: "age_filter (Date 2024 2 29) (MultiDict [(''max_age'', ''21'')]) ''min_age'' Dob_le
      = Inr []"
    by (simp add: age_filter_def params_get_int_def then_do_def)
  from n have hi: "age_filter (Date 2024 2 29) (MultiDict [(''max_age'', ''21'')]) ''max_age''
      Dob_ge = Inl ValueError"
    by (simp add: age_filter_def params_get_int_def then_do_def replace_year_def
        valid_date_def days_in_month_def is_leap_def)
  from lo hi
  have c: "build_search_query (Date 2024 2 29) pf (MultiDict [(''max_age'', ''21'')]) =
      Inl ValueError"
    by (simp add: build_search_query_def then_do_def sport_filter_def position_filter_def
        params_get_def pairs_def)
  from a b c leap_day_cutoff_raises [of pf] show ?thesis by simp
qed

lemma build_no_params:
  "build_search_query today pf (MultiDict []) = Inr (base_query\<lparr>order_clause := search_order\<rparr>)"
  by (simp add: build_search_query_def then_do_def sport_filter_def position_filter_def
      age_filter_def int_filter_def float_filter_def params_get_def params_get_int_def
      pairs_def finish_query_def tab_handling_def params_get_or_def lower_def
      text_filter_def team_filter_def strip_def query_order_by_def
      no_limit_offset_def base_query_def)

theorem deleted_profiles_never_listed_witness:
  "build_search_query (Date 2024 6 15) (\<lambda>_. None) (MultiDict []) =
     Inr (base_query\<lparr>order_clause := search_order\<rparr>) \<and>
   map_sum id (map athlete_id \<circ> pg_items)
     (paginate (\<lambda>_ _. False)
        [athlete_row 1 False None ''A'' ''b'' None, athlete_row 2 True (Some 5) ''A'' ''a'' None,
         athlete_row 3 False (Some 2) ''A'' ''z'' None]
        (base_query\<lparr>order_clause := search_order\<rparr>) 1 50 100) = Inr [3, 1] \<and>
   map_sum id (map athlete_id)
     (featured_query (\<lambda>_ _. False)
        [athlete_row 1 False None ''A'' ''b'' None, athlete_row 2 True (Some 5) ''A'' ''a'' None,
         athlete_row 3 False (Some 2) ''A'' ''z'' None] 6) = Inr [1, 3] \<and>
   (\<exists>pg rows.
      paginate (\<lambda>_ _. False)
        [athlete_row 1 False None ''A'' ''b'' None, athlete_row 2 True (Some 5) ''A'' ''a'' None,
         athlete_row 3 False (Some 2) ''A'' ''z'' None]
        (base_query\<lparr>order_clause := search_order\<rparr>) 1 50 100 = Inr pg \<and>
      featured_query (\<lambda>_ _. False)
        [athlete_row 1 False None ''A'' ''b'' None, athlete_row 2 True (Some 5) ''A'' ''a'' None,
         athlete_row 3 False (Some 2) ''A'' ''z'' None] 6 = Inr rows \<and>
      list_all (\<lambda>a. \<not> is_deleted a) (pg_items pg) \<and> list_all (\<lambda>a. \<not> is_deleted a) rows)"
proof -
  let ?db = "[athlete_row 1 False None ''A'' ''b'' None, athlete_row 2 True (Some 5) ''A'' ''a'' None,
         athlete_row 3 False (Some 2) ''A'' ''z'' None]"
  let ?q = "base_query\<lparr>order_clause := search_order\<rparr>"
  have b: "build_search_query (Date 2024 6 15) (\<lambda>_. None) (MultiDict []) = Inr ?q"
    by (rule build_no_params)
  have p: "map_sum id (map athlete_id \<circ> pg_items)
      (paginate (\<lambda>_ _. False) ?db ?q 1 50 100) = Inr [3, 1]"
    by code_simp
  have f: "map_sum id (map athlete_id) (featured_query (\<lambda>_ _. False) ?db 6) = Inr [1, 3]"
    by code_simp
  from p obtain pg where pg: "paginate (\<lambda>_ _. False) ?db ?q 1 50 100 = Inr pg"
    by (cases "paginate (\<lambda>_ _. False) ?db ?q 1 50 100") auto
  from f obtain rows where rows: "featured_query (\<lambda>_ _. False) ?db 6 = Inr rows"
    by (cases "featured_query (\<lambda>_ _. False) ?db 6") auto
  from deleted_profiles_never_listed [of "Date 2024 6 15" "\<lambda>_. None" "MultiDict []" ?q
      "\<lambda>_ _. False" ?db 1 50 100 pg 6 rows] b pg rows
  have "list_all (\<lambda>a. \<not> is_deleted a) (pg_items pg) \<and> list_all (\<lambda>a. \<not> is_deleted a) rows"
    by blast
  with b p f pg rows show ?thesis by blast
qed

theorem search_results_ordered_witness:
  "build_search_query (Date 2024 6 15) (\<lambda>_. None) (MultiDict []) =
     Inr (base_query\<lparr>order_clause := search_order\<rparr>) \<and>
   map athlete_id
     (matching (\<lambda>_ _. False)
        [athlete_row 1 False None ''A'' ''b'' None,
         athlete_row 2 False (Some 5) ''B'' ''m'' None,
         athlete_row 3 False (Some 7) ''A'' ''z'' None,
         athlete_row 4 False (Some 5) ''A'' ''m'' None,
         athlete_row 5 False (Some 5) ''C'' ''c'' None,
         athlete_row 6 False None ''A'' ''a'' None]
        (base_query\<lparr>order_clause := search_order\<rparr>)) = [3, 5, 4, 2, 6, 1] \<and>
   sorted_wrt search_le
     (matching (\<lambda>_ _. False)
        [athlete_row 1 False None ''A'' ''b'' None,
         athlete_row 2 False (Some 5) ''B'' ''m'' None,
         athlete_row 3 False (Some 7) ''A'' ''z'' None,
         athlete_row 4 False (Some 5) ''A'' ''m'' None,
         athlete_row 5 False (Some 5) ''C'' ''c'' None,
         athlete_row 6 False None ''A'' ''a'' None]
        (base_query\<lparr>order_clause := search_order\<rparr>)) \<and>
   (\<exists>pg. paginate (\<lambda>_ _. False)
        [athlete_row 1 False None ''A'' ''b'' None,
         athlete_row 2 False (Some 5) ''B'' ''m'' None,
         athlete_row 3 False (Some 7) ''A'' ''z'' None,
         athlete_row 4 False (Some 5) ''A'' ''m'' None,
         athlete_row 5 False (Some 5) ''C'' ''c'' None,
         athlete_row 6 False None ''A'' ''a'' None]
        (base_query\<lparr>order_clause := search_order\<rparr>) 2 2 100 = Inr pg \<and>
      map athlete_id (pg_items pg) = [4, 2] \<and> sorted_wrt search_le (pg_items pg))"
proof -
  let ?db = "[athlete_row 1 False None ''A'' ''b'' None,
         athlete_row 2 False (Some 5) ''B'' ''m'' None,
         athlete_row 3 False (Some 7) ''A'' ''z'' None,
         athlete_row 4 False (Some 5) ''A'' ''m'' None,
         athlete_row 5 False (Some 5) ''C'' ''c'' None,
         athlete_row 6 False None ''A'' ''a'' None]"
  let ?q = "base_query\<lparr>order_clause := search_order\<rparr>"
  have b: "build_search_query (Date 2024 6 15) (\<lambda>_. None) (MultiDict []) = Inr ?q"
    by (rule build_no_params)
  have m: "map athlete_id (matching (\<lambda>_ _. False) ?db ?q) = [3, 5, 4, 2, 6, 1]"
    by code_simp
  have p: "map_sum id (map athlete_id \<circ> pg_items)
      (paginate (\<lambda>_ _. False) ?db ?q 2 2 100) = Inr [4, 2]"
    by code_simp
  then obtain pg where pg: "paginate (\<lambda>_ _. False) ?db ?q 2 2 100 = Inr pg"
    and ids: "map athlete_id (pg_items pg) = [4, 2]"
    by (cases "paginate (\<lambda>_ _. False) ?db ?q 2 2 100") auto
  note t = search_results_ordered [OF b, of "\<lambda>_ _. False" ?db 2 2 100 pg]
  from t have s: "sorted_wrt search_le (matching (\<lambda>_ _. False) ?db ?q)" by (rule conjunct1)
  have "sorted_wrt search_le (pg_items pg)"
    by (rule mp [OF conjunct2 [OF t] pg])
  with pg ids have "\<exists>pg. paginate (\<lambda>_ _. False) ?db ?q 2 2 100 = Inr pg \<and>
      map athlete_id (pg_items pg) = [4, 2] \<and> sorted_wrt search_le (pg_items pg)"
    by (intro exI [of _ pg] conjI)
  with b m s show ?thesis by (intro conjI)
qed







lemma age_cutoff_inclusive_example:
  "\<exists>q. build_search_query (Date 2024 6 15) (\<lambda>_. None)
          (MultiDict [(''min_age'', ''24''), (''max_age'', ''30'')]) = Inr q \<and>
       replace_year (Date 2024 6 15) (year (Date 2024 6 15) - 24) = Inr (Date 2000 6 15) \<and>
       replace_year (Date 2024 6 15) (year (Date 2024 6 15) - 30) = Inr (Date 1994 6 15) \<and>
       athlete_row 1 False None ''A'' ''b'' (Some (Date 2000 6 15)) \<in>
         set (matching (\<lambda>_ _. False)
                [athlete_row 1 False None ''A'' ''b'' (Some (Date 2000 6 15)),
                 athlete_row 2 False None ''A'' ''c'' (Some (Date 2000 6 16)),
                 athlete_row 3 False None ''A'' ''d'' (Some (Date 1994 6 15)),
                 athlete_row 4 False None ''A'' ''e'' (Some (Date 1994 6 14))] q) \<and>
       athlete_row 3 False None ''A'' ''d'' (Some (Date 1994 6 15)) \<in>
         set (matching (\<lambda>_ _. False)
                [athlete_row 1 False None ''A'' ''b'' (Some (Date 2000 6 15)),
                 athlete_row 2 False None ''A'' ''c'' (Some (Date 2000 6 16)),
                 athlete_row 3 False None ''A'' ''d'' (Some (Date 1994 6 15)),
                 athlete_row 4 False None ''A'' ''e'' (Some (Date 1994 6 14))] q) \<and>
       map athlete_id (matching (\<lambda>_ _. False)
                [athlete_row 1 False None ''A'' ''b'' (Some (Date 2000 6 15)),
                 athlete_row 2 False None ''A'' ''c'' (Some (Date 2000 6 16)),
                 athlete_row 3 False None ''A'' ''d'' (Some (Date 1994 6 15)),
                 athlete_row 4 False None ''A'' ''e'' (Some (Date 1994 6 14))] q) = [1, 3]"
proof -
  let ?today = "Date 2024 6 15"
  let ?params = "MultiDict [(''min_age'', ''24''), (''max_age'', ''30'')]"
  let ?r1 = "athlete_row 1 False None ''A'' ''b'' (Some (Date 2000 6 15))"
  let ?r3 = "athlete_row 3 False None ''A'' ''d'' (Some (Date 1994 6 15))"
  let ?db = "[?r1, athlete_row 2 False None ''A'' ''c'' (Some (Date 2000 6 16)),
              ?r3, athlete_row 4 False None ''A'' ''e'' (Some (Date 1994 6 14))]"
  let ?q = "\<lparr>where_conds = [Is_deleted_eq False,
                AllOf [Dob_le (Date 2000 6 15), Dob_ge (Date 1994 6 15)]],
             join_user = True, limit_clause = None, offset_clause = None,
             order_clause = search_order\<rparr>"
  have i24: "py_int ''24'' = Some 24" and i30: "py_int ''30'' = Some 30"
    by (simp_all add: py_int_def int_strip_def int_isspace_def max_str_digits_def
        unsigned_value_def is_digit_def digit_val_def)
  have c24: "replace_year ?today (year ?today - 24) = Inr (Date 2000 6 15)"
    and c30: "replace_year ?today (year ?today - 30) = Inr (Date 1994 6 15)"
    by (simp_all add: replace_year_def valid_date_def days_in_month_def)
  have g24: "params_get_int ?params ''min_age'' = Inr (Some 24)"
    and g30: "params_get_int ?params ''max_age'' = Inr (Some 30)"
    by (simp_all add: params_get_int_def i24 i30)
  have a1: "age_filter ?today ?params ''min_age'' Dob_le = Inr [Dob_le (Date 2000 6 15)]"
    using c24 by (simp add: age_filter_def g24 then_do_def)
  have a2: "age_filter ?today ?params ''max_age'' Dob_ge = Inr [Dob_ge (Date 1994 6 15)]"
    using c30 by (simp add: age_filter_def g30 then_do_def)
  have b: "build_search_query ?today (\<lambda>_. None) ?params = Inr ?q"
    by (simp add: build_search_query_def a1 a2 then_do_def sport_filter_def position_filter_def
      int_filter_def float_filter_def params_get_def
      pairs_def finish_query_def tab_handling_def params_get_or_def lower_def
      text_filter_def team_filter_def strip_def query_order_by_def query_filter_def
      no_limit_offset_def base_query_def)
  have d1: "date_of_birth ?r1 = Some (Date 2000 6 15)" and d3: "date_of_birth ?r3 = Some (Date 1994 6 15)"
    by (simp_all add: athlete_row_def)
  have s1: "selects (\<lambda>_ _. False)
      (?q\<lparr>where_conds := [Is_deleted_eq False,
          AllOf (removeAll (Dob_le (Date 2000 6 15))
                   [Dob_le (Date 2000 6 15), Dob_ge (Date 1994 6 15)])]\<rparr>) ?r1"
    by (simp add: selects_def athlete_row_def date_le_def)
  have s3: "selects (\<lambda>_ _. False)
      (?q\<lparr>where_conds := [Is_deleted_eq False,
          AllOf (removeAll (Dob_ge (Date 1994 6 15))
                   [Dob_le (Date 2000 6 15), Dob_ge (Date 1994 6 15)])]\<rparr>) ?r3"
    by (simp add: selects_def athlete_row_def date_le_def)
  note t = age_cutoff_inclusive [OF b, of 24 "\<lambda>_ _. False" ?db 30]
  from t g24 obtain cutoff fs
    where r: "replace_year ?today (year ?today - 24) = Inr cutoff"
      and w: "where_conds ?q = [Is_deleted_eq False, AllOf fs]"
      and incl: "\<forall>a. date_of_birth a = Some cutoff \<longrightarrow>
          holds (\<lambda>_ _. False) a (Dob_le cutoff) \<and>
          (a \<in> set ?db \<longrightarrow>
           selects (\<lambda>_ _. False)
             (?q\<lparr>where_conds := [Is_deleted_eq False, AllOf (removeAll (Dob_le cutoff) fs)]\<rparr>) a \<longrightarrow>
           a \<in> set (matching (\<lambda>_ _. False) ?db ?q))"
    by blast
  from r c24 have cutoff: "cutoff = Date 2000 6 15" by simp
  from w have fs: "fs = [Dob_le (Date 2000 6 15), Dob_ge (Date 1994 6 15)]" by simp
  have in1: "?r1 \<in> set ?db" by simp
  from incl [rule_format, of ?r1] d1 s1 in1
  have m1: "?r1 \<in> set (matching (\<lambda>_ _. False) ?db ?q)"
    unfolding cutoff fs by blast
  from t g30 obtain cutoff' fs'
    where r': "replace_year ?today (year ?today - 30) = Inr cutoff'"
      and w': "where_conds ?q = [Is_deleted_eq False, AllOf fs']"
      and incl': "\<forall>a. date_of_birth a = Some cutoff' \<longrightarrow>
          holds (\<lambda>_ _. False) a (Dob_ge cutoff') \<and>
          (a \<in> set ?db \<longrightarrow>
           selects (\<lambda>_ _. False)
             (?q\<lparr>where_conds := [Is_deleted_eq False, AllOf (removeAll (Dob_ge cutoff') fs')]\<rparr>) a \<longrightarrow>
           a \<in> set (matching (\<lambda>_ _. False) ?db ?q))"
    by blast
  from r' c30 have cutoff': "cutoff' = Date 1994 6 15" by simp
  from w' have fs': "fs' = [Dob_le (Date 2000 6 15), Dob_ge (Date 1994 6 15)]" by simp
  have in3: "?r3 \<in> set ?db" by simp
  from incl' [rule_format, of ?r3] d3 s3 in3
  have m3: "?r3 \<in> set (matching (\<lambda>_ _. False) ?db ?q)"
    unfolding cutoff' fs' by blast
  have ids: "map athlete_id (matching (\<lambda>_ _. False) ?db ?q) = [1, 3]"
    by code_simp
  show ?thesis
    by (rule exI [of _ ?q]) (intro conjI b c24 c30 m1 m3 ids)
qed

text \<open>
  In the model, neither handler ever answers with a payload: the search handler hands
  the plain dictionary to \<open>build_search_query\<close>, whose \<^verbatim>\<open>get\<close> with \<^verbatim>\<open>type=int\<close> raises,
  and the featured handler raises while it builds the loader options.
\<close>

lemma search_handler_never_succeeds:
  "\<exists>e. AthleteSearch_get debug ser ilike pf today db args =
     (Error500 ''Search failed'' (error_message debug e), [Search_error e])"
proof -
  have "\<exists>e. then_do (page_arg (Dict args)) (\<lambda>page.
           then_do (per_page_arg (Dict args)) (\<lambda>per_page.
           then_do (build_search_query today pf (Dict args)) (\<lambda>q.
           then_do (paginate ilike db q page per_page 100) (\<lambda>pg. Inr (page, pg))))) = Inl e"
    using build_search_query_Dict [of today pf args]
    by (auto simp: then_do_def split: sum.splits)
  then show ?thesis
    by (auto simp: AthleteSearch_get_def search_handler_def)
qed

lemma featured_handler_never_succeeds:
  "FeaturedAthletes_get debug full_name fmt ilike today db args =
     (Error500 ''Failed to get featured athletes'' (error_message debug AttributeError),
      [Featured_error AttributeError])"
  by (simp add: FeaturedAthletes_get_def subqueryload_filter_def then_do_def)

end
